theory Spec2Isabelle
  imports Main "HOL-Library.Word"
begin

unbundle bit_operations_syntax

section \<open>JavaScript values\<close>

text \<open>
  A JavaScript string is a sequence of UTF-16 code units: \<open>length\<close>, \<open>slice\<close> and
  \<open>startsWith\<close> count code units.  String literals of the source are ASCII apart from
  two characters, which are given by their code unit.
\<close>

type_synonym jschar = "16 word"
type_synonym jsstring = "jschar list"
type_synonym byte = "8 word"

definition lit :: "string \<Rightarrow> jsstring" where
  "lit s = map (\<lambda>c. of_nat (of_char c)) s"

text \<open>A value that may be \<open>undefined\<close> or \<open>null\<close>.\<close>

datatype 'a nullable = Undefined | Null | Val 'a

text \<open>
  A number, as far as the module looks at one: either an integer value or a value for
  which \<open>Number.isInteger\<close> is false (NaN, an infinity, a fraction).
\<close>

datatype jsnumber = Integer int | NonInteger

text \<open>A thrown \<open>Error\<close> object: the name of its class and its message.\<close>

datatype error = Error (err_name: jsstring) (err_message: jsstring)

text \<open>\<open>Error.prototype.toString\<close>.\<close>

definition error_toString :: "error \<Rightarrow> jsstring" where
  "error_toString e =
     (if err_name e = [] then err_message e
      else if err_message e = [] then err_name e
      else err_name e @ lit '': '' @ err_message e)"

text \<open>\<open>ToString\<close> of a string that may be \<open>undefined\<close> or \<open>null\<close>.\<close>

fun to_string :: "jsstring nullable \<Rightarrow> jsstring" where
  "to_string Undefined = lit ''undefined''"
| "to_string Null = lit ''null''"
| "to_string (Val s) = s"

text \<open>\<open>a ?? b\<close>\<close>

fun nullish :: "'a nullable \<Rightarrow> 'a \<Rightarrow> 'a" where
  "nullish (Val a) b = a"
| "nullish _ b = b"

text \<open>
  \<open>String.prototype.slice\<close> and \<open>Uint8Array.prototype.slice\<close>: a negative position
  counts from the end, both positions are clamped to the length, and an end before the
  start gives the empty sequence.
\<close>

definition slice_js :: "'a list \<Rightarrow> int \<Rightarrow> int option \<Rightarrow> 'a list" where
  "slice_js s start end' =
     (let len = int (length s);
          from = (if start < 0 then max (len + start) 0 else min start len);
          to = (case end' of None \<Rightarrow> len
                | Some e \<Rightarrow> if e < 0 then max (len + e) 0 else min e len)
      in take (nat (to - from)) (drop (nat from) s))"

definition startsWith :: "'a list \<Rightarrow> 'a list \<Rightarrow> bool" where
  "startsWith s p = (take (length p) s = p)"

text \<open>
  \<open>String.prototype.indexOf\<close>: the position of the first occurrence of \<open>p\<close> in
  \<open>s\<close>.
\<close>

fun indexOf :: "'a list \<Rightarrow> 'a list \<Rightarrow> nat option" where
  "indexOf [] p = (if p = [] then Some 0 else None)"
| "indexOf (c # cs) p =
     (if startsWith (c # cs) p then Some 0 else map_option Suc (indexOf cs p))"

text \<open>
  \<open>GetSubstitution\<close> of ECMAScript for a pattern that is a string (no capture groups):
  in the replacement text \<open>$$\<close> stands for a dollar sign, \<open>$&\<close> for the matched text,
  \<open>$`\<close> for the text before the match and \<open>$'\<close> for the text after it; every other
  character, a dollar sign before anything else included, stands for itself.
\<close>

fun getSubstitution :: "jsstring \<Rightarrow> jsstring \<Rightarrow> jsstring \<Rightarrow> jsstring \<Rightarrow> jsstring" where
  "getSubstitution matched before after [] = []"
| "getSubstitution matched before after [c] = [c]"
| "getSubstitution matched before after (c # d # r) =
     (if c = 0x24 then
        if d = 0x24 then 0x24 # getSubstitution matched before after r
        else if d = 0x26 then matched @ getSubstitution matched before after r
        else if d = 0x60 then before @ getSubstitution matched before after r
        else if d = 0x27 then after @ getSubstitution matched before after r
        else c # getSubstitution matched before after (d # r)
      else c # getSubstitution matched before after (d # r))"

text \<open>\<open>String.prototype.replace\<close> with a string pattern: the first occurrence only.\<close>

definition replace_js :: "jsstring \<Rightarrow> jsstring \<Rightarrow> jsstring \<Rightarrow> jsstring" where
  "replace_js s p r =
     (case indexOf s p of
        None \<Rightarrow> s
      | Some pos \<Rightarrow>
          take pos s
          @ getSubstitution p (take pos s) (drop (pos + length p) s) r
          @ drop (pos + length p) s)"

text \<open>The remainder operator \<open>%\<close> on integers: the sign of the dividend.\<close>

definition rem_js :: "int \<Rightarrow> int \<Rightarrow> int" where
  "rem_js a b = sgn a * (\<bar>a\<bar> mod \<bar>b\<bar>)"

section \<open>What the module imports and reads\<close>

text \<open>
  The module imports \<open>Bech32\<close>, \<open>fromBase64\<close> and \<open>toBase64\<close> from
  \<open>@cosmjs/encoding\<close>, \<open>sha512\<close> from \<open>@cosmjs/crypto\<close> and \<open>Decimal\<close> from
  \<open>@cosmjs/math\<close>.  These packages are not part of the repository: the module's
  functions take them as a parameter, together with \<open>String.prototype.toUpperCase\<close>
  (the upper-casing of Unicode).  A call that throws returns \<open>Inl\<close> of the error.
\<close>

record 'd externals =
  Bech32_decode :: "jsstring \<Rightarrow> error + jsstring \<times> byte list"
  Bech32_encode :: "jsstring nullable \<Rightarrow> byte list \<Rightarrow> error + jsstring"
  fromBase64 :: "jsstring \<Rightarrow> error + byte list"
  toBase64 :: "byte list \<Rightarrow> jsstring"
  sha512 :: "byte list \<Rightarrow> byte list"
  Decimal_fromAtomics :: "jsstring \<Rightarrow> jsnumber \<Rightarrow> error + 'd"
  Decimal_toString :: "'d \<Rightarrow> jsstring"
  toUpperCase :: "jsstring \<Rightarrow> jsstring"

text \<open>
  The variables of \<open>process.env\<close> that the module reads.  A variable that is not set is
  \<open>Undefined\<close> (a variable is never \<open>Null\<close>).  The exponent is held as the module
  uses it: the value of \<open>Number(process.env.NEXT_PUBLIC_DISPLAY_DENOM_EXPONENT)\<close>.
\<close>

record env =
  NEXT_PUBLIC_DENOM :: "jsstring nullable"
  NEXT_PUBLIC_DISPLAY_DENOM :: "jsstring nullable"
  NEXT_PUBLIC_DISPLAY_DENOM_EXPONENT :: jsnumber
  NEXT_PUBLIC_ADDRESS_PREFIX :: "jsstring nullable"
  NEXT_PUBLIC_EXPLORER_LINK_TX :: "jsstring nullable"

record coin =
  amount :: "jsstring nullable"
  denom :: "jsstring nullable"

section \<open>The module\<close>

subsection \<open>abbreviateLongString\<close>

definition abbreviateLongString :: "jsstring \<Rightarrow> jsstring" where
  "abbreviateLongString longString =
     (if length longString < 13 then longString
      else slice_js longString 0 (Some 5) @ lit ''...'' @ slice_js longString (- 5) None)"

subsection \<open>printableCoin and printableCoins\<close>

text \<open>NARROW NO-BREAK SPACE (U+202F)\<close>

definition thinSpace :: jsstring where
  "thinSpace = [0x202F]"

text \<open>The result for a missing coin: EN DASH (U+2013).\<close>

definition dash :: jsstring where
  "dash = [0x2013]"

text \<open>\<open>coin.denom?.startsWith("u")\<close>\<close>

fun denom_startsWith_u :: "jsstring nullable \<Rightarrow> bool" where
  "denom_startsWith_u (Val d) = startsWith d (lit ''u'')"
| "denom_startsWith_u _ = False"

definition printableCoin :: "'d externals \<Rightarrow> env \<Rightarrow> coin nullable \<Rightarrow> error + jsstring" where
  "printableCoin X E c =
     (case c of
        Val coin \<Rightarrow>
          if denom coin = NEXT_PUBLIC_DENOM E then
            (case Decimal_fromAtomics X (nullish (amount coin) (lit ''0''))
                    (NEXT_PUBLIC_DISPLAY_DENOM_EXPONENT E) of
               Inl e \<Rightarrow> Inl e
             | Inr d \<Rightarrow>
                 Inr (Decimal_toString X d @ thinSpace @ to_string (NEXT_PUBLIC_DISPLAY_DENOM E)))
          else if denom_startsWith_u (denom coin) then
            (case Decimal_fromAtomics X (nullish (amount coin) (lit ''0'')) (Integer 6) of
               Inl e \<Rightarrow> Inl e
             | Inr d \<Rightarrow>
                 Inr (Decimal_toString X d @ thinSpace
                      @ toUpperCase X (slice_js (to_string (denom coin)) 1 None)))
          else Inr (to_string (amount coin) @ thinSpace @ to_string (denom coin))
      | _ \<Rightarrow> Inr dash)"

definition printableCoins :: "'d externals \<Rightarrow> env \<Rightarrow> coin nullable list \<Rightarrow> error + jsstring" where
  "printableCoins X E coins =
     (if length coins \<noteq> 1
      then Inl (Error (lit ''Error'') (lit ''Implementation only supports exactly one coin entry.''))
      else printableCoin X E (coins ! 0))"

subsection \<open>exampleAddress and examplePubkey\<close>

text \<open>\<open>index || 0\<close>\<close>

fun or_zero :: "int nullable \<Rightarrow> int" where
  "or_zero (Val i) = (if i = 0 then 0 else i)"
| "or_zero _ = 0"

text \<open>
  The loop \<open>for (let i = 0; i < usedIndex; ++i) { data = body(data) }\<close> of both
  generators, from the value \<open>i\<close> of its counter.
\<close>

function for_loop :: "(byte list \<Rightarrow> byte list) \<Rightarrow> int \<Rightarrow> int \<Rightarrow> byte list \<Rightarrow> byte list" where
  "for_loop body i usedIndex data =
     (if i < usedIndex then for_loop body (i + 1) usedIndex (body data) else data)"
  by pat_completeness auto
termination
  by (relation "measure (\<lambda>(body, i, usedIndex, data). nat (usedIndex - i))") auto

text \<open>\<open>sha512(data).slice(0, data.length)\<close>\<close>

definition hash_and_trim :: "'d externals \<Rightarrow> byte list \<Rightarrow> byte list" where
  "hash_and_trim X data = slice_js (sha512 X data) 0 (Some (int (length data)))"

definition address_seed :: jsstring where
  "address_seed = lit ''cosmos1vqpjljwsynsn58dugz0w8ut7kun7t8ls2qkmsq''"

definition exampleAddress :: "'d externals \<Rightarrow> env \<Rightarrow> int nullable \<Rightarrow> error + jsstring" where
  "exampleAddress X E index =
     (let usedIndex = or_zero index in
      case Bech32_decode X address_seed of
        Inl e \<Rightarrow> Inl e
      | Inr (prefix, data) \<Rightarrow>
          Bech32_encode X (NEXT_PUBLIC_ADDRESS_PREFIX E)
            (for_loop (hash_and_trim X) 0 usedIndex data))"

text \<open>
  \<open>index % 2\<close> as a condition: true for a non-zero remainder; the remainder of
  \<open>undefined\<close> is NaN and that of \<open>null\<close> is 0, both false.
\<close>

fun index_rem2_truthy :: "int nullable \<Rightarrow> bool" where
  "index_rem2_truthy (Val i) = (rem_js i 2 \<noteq> 0)"
| "index_rem2_truthy _ = False"

text \<open>
  The body of the loop of \<open>examplePubkey\<close>.  An assignment to \<open>data[0]\<close> of an empty
  \<open>Uint8Array\<close> is ignored, as \<open>list_update\<close> does.
\<close>

definition pubkey_body :: "'d externals \<Rightarrow> int nullable \<Rightarrow> byte list \<Rightarrow> byte list" where
  "pubkey_body X index data =
     (hash_and_trim X data)[0 := (if index_rem2_truthy index then 0x02 else 0x03)]"

definition pubkey_seed :: jsstring where
  "pubkey_seed = lit ''Akd/qKMWdZXyiMnSu6aFLpQEGDO0ijyal9mXUIcVaPNX''"

definition examplePubkey :: "'d externals \<Rightarrow> int nullable \<Rightarrow> error + jsstring" where
  "examplePubkey X index =
     (let usedIndex = or_zero index in
      case fromBase64 X pubkey_seed of
        Inl e \<Rightarrow> Inl e
      | Inr data \<Rightarrow> Inr (toBase64 X (for_loop (pubkey_body X index) 0 usedIndex data)))"

subsection \<open>checkAddress\<close>

definition checkAddress :: "'d externals \<Rightarrow> env \<Rightarrow> jsstring nullable \<Rightarrow> error + jsstring nullable" where
  "checkAddress X E input =
     (case input of
        Val s \<Rightarrow>
          if s = [] then Inr (Val (lit ''Empty''))
          else
            (case Bech32_decode X s of
               Inl error \<Rightarrow> Inr (Val (error_toString error))
             | Inr (prefix, data) \<Rightarrow>
                 if Val prefix \<noteq> NEXT_PUBLIC_ADDRESS_PREFIX E then
                   Inr (Val (lit ''Expected address prefix '' @ [0x27]
                             @ to_string (NEXT_PUBLIC_ADDRESS_PREFIX E) @ [0x27]
                             @ lit '' but got '' @ [0x27] @ prefix @ [0x27]))
                 else if length data \<noteq> 20 then
                   Inr (Val (lit ''Invalid address length in bech32 data. Must be 20 bytes.''))
                 else Inr Null)
      | _ \<Rightarrow> Inr (Val (lit ''Empty'')))"

subsection \<open>explorerLinkTx\<close>

definition explorerLinkTx :: "env \<Rightarrow> jsstring \<Rightarrow> jsstring nullable" where
  "explorerLinkTx E hash =
     (case NEXT_PUBLIC_EXPLORER_LINK_TX E of
        Val template \<Rightarrow>
          if template \<noteq> [] then Val (replace_js template (lit ''%s'') hash) else Null
      | _ \<Rightarrow> Null)"

section \<open>A reference instance of the imports\<close>

text \<open>
  The closed statements below (a witness, a counterexample, a value of an example
  generator) need the imported functions themselves.  They are defined here after the
  standards the spec names for them; the module's functions never refer to these
  definitions, only the instance \<open>cosmjs\<close> at the end of this section does.
\<close>

fun find_index_of :: "'a \<Rightarrow> 'a list \<Rightarrow> nat option" where
  "find_index_of c [] = None"
| "find_index_of c (x # xs) = (if x = c then Some 0 else map_option Suc (find_index_of c xs))"

subsection \<open>Base64\<close>

text \<open>
  Modelled from the spec: \<open>fromBase64\<close> and \<open>toBase64\<close> of \<open>@cosmjs/encoding\<close>
  are not in the repository; the spec names them "base64 encode/decode".  The definitions
  follow RFC 4648 with the standard alphabet and \<open>=\<close> padding; decoding throws on a
  string that is not made of alphabet characters followed by at most two \<open>=\<close>, or whose
  length is not a multiple of 4.
\<close>

definition base64_alphabet :: jsstring where
  "base64_alphabet = lit ''ABCDEFGHIJKLMNOPQRSTUVWXYZabcdefghijklmnopqrstuvwxyz0123456789+/''"

definition base64_char :: "nat \<Rightarrow> jschar" where
  "base64_char v = base64_alphabet ! v"

fun base64_encode :: "nat list \<Rightarrow> jsstring" where
  "base64_encode (a # b # c # rest) =
     base64_char (a div 4) # base64_char (a mod 4 * 16 + b div 16)
     # base64_char (b mod 16 * 4 + c div 64) # base64_char (c mod 64) # base64_encode rest"
| "base64_encode [a, b] =
     [base64_char (a div 4), base64_char (a mod 4 * 16 + b div 16),
      base64_char (b mod 16 * 4), 0x3D]"
| "base64_encode [a] = [base64_char (a div 4), base64_char (a mod 4 * 16), 0x3D, 0x3D]"
| "base64_encode [] = []"

definition toBase64_ref :: "byte list \<Rightarrow> jsstring" where
  "toBase64_ref data = base64_encode (map unat data)"

fun base64_body :: "jsstring \<Rightarrow> jsstring" where
  "base64_body [] = []"
| "base64_body (c # cs) = (if c = 0x3D then [] else c # base64_body cs)"

fun base64_padding :: "jsstring \<Rightarrow> jsstring" where
  "base64_padding [] = []"
| "base64_padding (c # cs) = (if c = 0x3D then c # cs else base64_padding cs)"

fun base64_values :: "jsstring \<Rightarrow> nat list option" where
  "base64_values [] = Some []"
| "base64_values (c # cs) =
     (case find_index_of c base64_alphabet of
        None \<Rightarrow> None
      | Some v \<Rightarrow> map_option ((#) v) (base64_values cs))"

fun base64_decode :: "nat list \<Rightarrow> nat list" where
  "base64_decode (a # b # c # d # rest) =
     (a * 4 + b div 16) # (b mod 16 * 16 + c div 4) # (c mod 4 * 64 + d) # base64_decode rest"
| "base64_decode [a, b, c] = [a * 4 + b div 16, b mod 16 * 16 + c div 4]"
| "base64_decode [a, b] = [a * 4 + b div 16]"
| "base64_decode _ = []"

definition fromBase64_ref :: "jsstring \<Rightarrow> error + byte list" where
  "fromBase64_ref s =
     (case base64_values (base64_body s) of
        None \<Rightarrow> Inl (Error (lit ''Error'') (lit ''Invalid base64 string format''))
      | Some vs \<Rightarrow>
          if base64_padding s \<noteq> [] \<and> base64_padding s \<noteq> [0x3D] \<and> base64_padding s \<noteq> [0x3D, 0x3D]
          then Inl (Error (lit ''Error'') (lit ''Invalid base64 string format''))
          else if length s mod 4 \<noteq> 0
          then Inl (Error (lit ''Error'') (lit ''Invalid string. Length must be a multiple of 4''))
          else Inr (map of_nat (base64_decode vs)))"

subsection \<open>Bech32\<close>

text \<open>
  Modelled from the spec: \<open>Bech32.encode\<close> and \<open>Bech32.decode\<close> of
  \<open>@cosmjs/encoding\<close> are not in the repository; the spec names them "bech32
  encode/decode (returns/accepts {prefix, data: bytes}, raises a decodable error on
  malformed input)".  The definitions follow BIP-173: the checksum is the BCH code over
  the expanded prefix and the 5-bit words, the encoder limits the string to 90 characters
  and the decoder has no limit.  Lower- and upper-casing are those of ASCII letters.
\<close>

definition bech32_alphabet :: jsstring where
  "bech32_alphabet = lit ''qpzry9x8gf2tvdw0s3jn54khce6mua7l''"

definition bech32_char :: "nat \<Rightarrow> jschar" where
  "bech32_char v = bech32_alphabet ! v"

definition polymodStep :: "nat \<Rightarrow> nat" where
  "polymodStep pre =
     ((pre mod 2 ^ 25) * 2 ^ 5)
      XOR (if odd (pre div 2 ^ 25) then 0x3b6a57b2 else 0)
      XOR (if odd (pre div 2 ^ 26) then 0x26508e6d else 0)
      XOR (if odd (pre div 2 ^ 27) then 0x1ea119fa else 0)
      XOR (if odd (pre div 2 ^ 28) then 0x3d4233dd else 0)
      XOR (if odd (pre div 2 ^ 29) then 0x2a1462b3 else 0)"

definition ascii_lower :: "jschar \<Rightarrow> jschar" where
  "ascii_lower c = (if 0x41 \<le> c \<and> c \<le> 0x5A then c + 0x20 else c)"

definition ascii_upper :: "jschar \<Rightarrow> jschar" where
  "ascii_upper c = (if 0x61 \<le> c \<and> c \<le> 0x7A then c - 0x20 else c)"

fun prefix_high :: "jsstring \<Rightarrow> nat \<Rightarrow> nat" where
  "prefix_high [] chk = chk"
| "prefix_high (c # cs) chk = prefix_high cs (polymodStep chk XOR (unat c div 32))"

fun prefix_low :: "jsstring \<Rightarrow> nat \<Rightarrow> nat" where
  "prefix_low [] chk = chk"
| "prefix_low (c # cs) chk = prefix_low cs (polymodStep chk XOR (unat c mod 32))"

fun prefix_invalid :: "jsstring \<Rightarrow> bool" where
  "prefix_invalid [] = False"
| "prefix_invalid (c # cs) = (c < 33 \<or> 126 < c \<or> prefix_invalid cs)"

definition prefixChk :: "jsstring \<Rightarrow> error + nat" where
  "prefixChk prefix =
     (if prefix_invalid prefix
      then Inl (Error (lit ''Error'') (lit ''Invalid prefix ('' @ prefix @ lit '')''))
      else Inr (prefix_low prefix (polymodStep (prefix_high prefix 1))))"

function convert_run ::
  "nat \<Rightarrow> nat \<Rightarrow> nat \<Rightarrow> nat \<Rightarrow> nat list \<Rightarrow> nat list \<Rightarrow> nat list \<times> nat \<times> nat" where
  "convert_run inBits outBits v bits result data =
     (if 0 < outBits \<and> outBits \<le> bits
      then convert_run inBits outBits v (bits - outBits)
             (result @ [v div 2 ^ (bits - outBits) mod 2 ^ outBits]) data
      else case data of
             [] \<Rightarrow> (result, v, bits)
           | x # xs \<Rightarrow> convert_run inBits outBits (v * 2 ^ inBits OR x) (bits + inBits) result xs)"
  by pat_completeness auto
termination
  by (relation "measures [\<lambda>(i, out, v, bits, r, data). length data, \<lambda>(i, out, v, bits, r, data). bits]")
    auto

fun convert_end :: "nat \<Rightarrow> nat \<Rightarrow> bool \<Rightarrow> nat list \<times> nat \<times> nat \<Rightarrow> error + nat list" where
  "convert_end inBits outBits pad (result, v, bits) =
     (if pad then
        Inr (if 0 < bits then result @ [v * 2 ^ (outBits - bits) mod 2 ^ outBits] else result)
      else if inBits \<le> bits then Inl (Error (lit ''Error'') (lit ''Excess padding''))
      else if v * 2 ^ (outBits - bits) mod 2 ^ outBits \<noteq> 0
      then Inl (Error (lit ''Error'') (lit ''Non-zero padding''))
      else Inr result)"

definition convert :: "nat list \<Rightarrow> nat \<Rightarrow> nat \<Rightarrow> bool \<Rightarrow> error + nat list" where
  "convert data inBits outBits pad =
     convert_end inBits outBits pad (convert_run inBits outBits 0 0 [] data)"

fun words_checksum :: "nat list \<Rightarrow> nat \<Rightarrow> nat" where
  "words_checksum [] chk = chk"
| "words_checksum (x # xs) chk = words_checksum xs (polymodStep chk XOR x)"

fun word_too_wide :: "nat list \<Rightarrow> bool" where
  "word_too_wide [] = False"
| "word_too_wide (x # xs) = (x div 32 \<noteq> 0 \<or> word_too_wide xs)"

definition checksum_words :: "nat \<Rightarrow> nat list" where
  "checksum_words c =
     [c div 2 ^ 25 mod 32, c div 2 ^ 20 mod 32, c div 2 ^ 15 mod 32,
      c div 2 ^ 10 mod 32, c div 2 ^ 5 mod 32, c mod 32]"

definition bech32_checksum :: "nat \<Rightarrow> nat list" where
  "bech32_checksum chk =
     checksum_words
       (polymodStep (polymodStep (polymodStep (polymodStep (polymodStep (polymodStep chk))))) XOR 1)"

definition bech32_encode :: "jsstring \<Rightarrow> nat list \<Rightarrow> error + jsstring" where
  "bech32_encode prefix words =
     (if 90 < length prefix + 7 + length words
      then Inl (Error (lit ''TypeError'') (lit ''Exceeds length limit''))
      else
        (case prefixChk (map ascii_lower prefix) of
           Inl e \<Rightarrow> Inl e
         | Inr chk \<Rightarrow>
             if word_too_wide words
             then Inl (Error (lit ''Error'') (lit ''Non 5-bit word''))
             else Inr (map ascii_lower prefix @ lit ''1'' @ map bech32_char words
                       @ map bech32_char (bech32_checksum (words_checksum words chk)))))"

fun Bech32_encode_ref :: "jsstring nullable \<Rightarrow> byte list \<Rightarrow> error + jsstring" where
  "Bech32_encode_ref (Val prefix) data =
     (case convert (map unat data) 8 5 True of
        Inl e \<Rightarrow> Inl e
      | Inr words \<Rightarrow> bech32_encode prefix words)"
| "Bech32_encode_ref Undefined data =
     Inl (Error (lit ''TypeError'')
            (lit ''Cannot read properties of undefined (reading '' @ [0x27] @ lit ''length''
             @ [0x27] @ lit '')''))"
| "Bech32_encode_ref Null data =
     Inl (Error (lit ''TypeError'')
            (lit ''Cannot read properties of null (reading '' @ [0x27] @ lit ''length''
             @ [0x27] @ lit '')''))"

fun last_index_of :: "'a \<Rightarrow> 'a list \<Rightarrow> nat option" where
  "last_index_of c [] = None"
| "last_index_of c (x # xs) =
     (case last_index_of c xs of
        Some i \<Rightarrow> Some (Suc i)
      | None \<Rightarrow> if x = c then Some 0 else None)"

fun bech32_values :: "jsstring \<Rightarrow> error + nat list" where
  "bech32_values [] = Inr []"
| "bech32_values (c # cs) =
     (case find_index_of c bech32_alphabet of
        None \<Rightarrow> Inl (Error (lit ''Error'') (lit ''Unknown character '' @ [c]))
      | Some v \<Rightarrow> map_sum id ((#) v) (bech32_values cs))"

definition bech32_decode_split :: "jsstring \<Rightarrow> nat \<Rightarrow> error + jsstring \<times> nat list" where
  "bech32_decode_split str split =
     (if length (drop (Suc split) str) < 6
      then Inl (Error (lit ''Error'') (lit ''Data too short''))
      else
        (case prefixChk (take split str) of
           Inl e \<Rightarrow> Inl e
         | Inr chk \<Rightarrow>
             (case bech32_values (drop (Suc split) str) of
                Inl e \<Rightarrow> Inl e
              | Inr words \<Rightarrow>
                  if words_checksum words chk \<noteq> 1
                  then Inl (Error (lit ''Error'') (lit ''Invalid checksum for '' @ str))
                  else Inr (take split str, take (length words - 6) words))))"

definition bech32_decode :: "jsstring \<Rightarrow> error + jsstring \<times> nat list" where
  "bech32_decode str =
     (if length str < 8 then Inl (Error (lit ''Error'') (str @ lit '' too short''))
      else if str \<noteq> map ascii_lower str \<and> str \<noteq> map ascii_upper str
      then Inl (Error (lit ''Error'') (lit ''Mixed-case string '' @ str))
      else
        (case last_index_of 0x31 (map ascii_lower str) of
           None \<Rightarrow>
             Inl (Error (lit ''Error'') (lit ''No separator character for '' @ map ascii_lower str))
         | Some split \<Rightarrow>
             if split = 0
             then Inl (Error (lit ''Error'') (lit ''Missing prefix for '' @ map ascii_lower str))
             else bech32_decode_split (map ascii_lower str) split))"

fun Bech32_decode_words :: "jsstring \<times> nat list \<Rightarrow> error + jsstring \<times> byte list" where
  "Bech32_decode_words (prefix, words) =
     (case convert words 5 8 False of
        Inl e \<Rightarrow> Inl e
      | Inr bytes \<Rightarrow> Inr (prefix, map of_nat bytes))"

definition Bech32_decode_ref :: "jsstring \<Rightarrow> error + jsstring \<times> byte list" where
  "Bech32_decode_ref address =
     (case bech32_decode address of
        Inl e \<Rightarrow> Inl e
      | Inr r \<Rightarrow> Bech32_decode_words r)"

subsection \<open>Decimal\<close>

text \<open>
  Modelled from the spec: \<open>Decimal\<close> of \<open>@cosmjs/math\<close> is not in the repository;
  the spec names it "a fixed-point decimal parser/formatter supporting an explicit
  exponent and canonical trimmed-zero string output" that throws when the "amount is not a
  valid non-negative integer numeral".  The number of fractional digits must be an integer
  from 0 to 100.
\<close>

datatype decimal = Decimal (atomics: nat) (fractionalDigits: nat)

definition digit_char :: "nat \<Rightarrow> jschar" where
  "digit_char d = of_nat (48 + d)"

function nat_toString :: "nat \<Rightarrow> jsstring" where
  "nat_toString n = (if n < 10 then [digit_char n] else nat_toString (n div 10) @ [digit_char (n mod 10)])"
  by pat_completeness auto
termination
  by (relation "measure id") auto

fun is_digits :: "jsstring \<Rightarrow> bool" where
  "is_digits [] = True"
| "is_digits (c # cs) = (0x30 \<le> c \<and> c \<le> 0x39 \<and> is_digits cs)"

fun digits_value :: "jsstring \<Rightarrow> nat \<Rightarrow> nat" where
  "digits_value [] acc = acc"
| "digits_value (c # cs) acc = digits_value cs (10 * acc + (unat c - 48))"

definition Decimal_fromAtomics_ref :: "jsstring \<Rightarrow> jsnumber \<Rightarrow> error + decimal" where
  "Decimal_fromAtomics_ref atomics' fractionalDigits' =
     (case fractionalDigits' of
        NonInteger \<Rightarrow> Inl (Error (lit ''Error'') (lit ''Fractional digits is not an integer''))
      | Integer n \<Rightarrow>
          if n < 0 then Inl (Error (lit ''Error'') (lit ''Fractional digits must not be negative''))
          else if 100 < n
          then Inl (Error (lit ''Error'') (lit ''Fractional digits must not exceed 100''))
          else if atomics' = [] \<or> \<not> is_digits atomics'
          then Inl (Error (lit ''Error'')
                 (lit ''Invalid string format. Only non-negative integers in decimal representation supported.''))
          else Inr (Decimal (digits_value atomics' 0) (nat n)))"

fun trim_zeros :: "jsstring \<Rightarrow> jsstring" where
  "trim_zeros [] = []"
| "trim_zeros (c # cs) = (if trim_zeros cs = [] \<and> c = 0x30 then [] else c # trim_zeros cs)"

definition padStart_zeros :: "nat \<Rightarrow> jsstring \<Rightarrow> jsstring" where
  "padStart_zeros n s = replicate (n - length s) 0x30 @ s"

fun Decimal_toString_ref :: "decimal \<Rightarrow> jsstring" where
  "Decimal_toString_ref (Decimal a fd) =
     (if a mod 10 ^ fd = 0 then nat_toString (a div 10 ^ fd)
      else nat_toString (a div 10 ^ fd) @ lit ''.''
           @ trim_zeros (padStart_zeros fd (nat_toString (a mod 10 ^ fd))))"

subsection \<open>SHA-512\<close>

text \<open>
  Modelled from the spec: \<open>sha512\<close> of \<open>@cosmjs/crypto\<close> is not in the repository;
  the spec names it "a cryptographic hash (SHA-512) producing a fixed 64-byte digest".
  The definitions follow FIPS 180-4, on integers with the reduction modulo \<open>2 ^ 64\<close>
  written out.  The message schedule is held as a window of the last 16 words.
\<close>

type_synonym sha_state = "int \<times> int \<times> int \<times> int \<times> int \<times> int \<times> int \<times> int"

definition add64 :: "int \<Rightarrow> int \<Rightarrow> int" where
  "add64 x y = (x + y) mod 18446744073709551616"

definition rotr :: "nat \<Rightarrow> int \<Rightarrow> int" where
  "rotr n x = x div 2 ^ n + (x mod 2 ^ n) * 2 ^ (64 - n)"

definition shr :: "nat \<Rightarrow> int \<Rightarrow> int" where
  "shr n x = x div 2 ^ n"

definition not64 :: "int \<Rightarrow> int" where
  "not64 x = 18446744073709551615 - x"

definition K512 :: "int list" where
  "K512 =
     [4794697086780616226, 8158064640168781261, 13096744586834688815, 16840607885511220156,
     4131703408338449720, 6480981068601479193, 10538285296894168987, 12329834152419229976,
     15566598209576043074, 1334009975649890238, 2608012711638119052, 6128411473006802146,
     8268148722764581231, 9286055187155687089, 11230858885718282805, 13951009754708518548,
     16472876342353939154, 17275323862435702243, 1135362057144423861, 2597628984639134821,
     3308224258029322869, 5365058923640841347, 6679025012923562964, 8573033837759648693,
     10970295158949994411, 12119686244451234320, 12683024718118986047, 13788192230050041572,
     14330467153632333762, 15395433587784984357, 489312712824947311, 1452737877330783856,
     2861767655752347644, 3322285676063803686, 5560940570517711597, 5996557281743188959,
     7280758554555802590, 8532644243296465576, 9350256976987008742, 10552545826968843579,
     11727347734174303076, 12113106623233404929, 14000437183269869457, 14369950271660146224,
     15101387698204529176, 15463397548674623760, 17586052441742319658, 1182934255886127544,
     1847814050463011016, 2177327727835720531, 2830643537854262169, 3796741975233480872,
     4115178125766777443, 5681478168544905931, 6601373596472566643, 7507060721942968483,
     8399075790359081724, 8693463985226723168, 9568029438360202098, 10144078919501101548,
     10430055236837252648, 11840083180663258601, 13761210420658862357, 14299343276471374635,
     14566680578165727644, 15097957966210449927, 16922976911328602910, 17689382322260857208,
     500013540394364858, 748580250866718886, 1242879168328830382, 1977374033974150939,
     2944078676154940804, 3659926193048069267, 4368137639120453308, 4836135668995329356,
     5532061633213252278, 6448918945643986474, 6902733635092675308, 7801388544844847127]"

definition H512 :: sha_state where
  "H512 =
     (7640891576956012808, 13503953896175478587, 4354685564936845355, 11912009170470909681,
     5840696475078001361, 11170449401992604703, 2270897969802886507, 6620516959819538809)"

definition ssig0 :: "int \<Rightarrow> int" where
  "ssig0 x = rotr 1 x XOR rotr 8 x XOR shr 7 x"

definition ssig1 :: "int \<Rightarrow> int" where
  "ssig1 x = rotr 19 x XOR rotr 61 x XOR shr 6 x"

definition bsig0 :: "int \<Rightarrow> int" where
  "bsig0 x = rotr 28 x XOR rotr 34 x XOR rotr 39 x"

definition bsig1 :: "int \<Rightarrow> int" where
  "bsig1 x = rotr 14 x XOR rotr 18 x XOR rotr 41 x"

definition ch :: "int \<Rightarrow> int \<Rightarrow> int \<Rightarrow> int" where
  "ch x y z = (x AND y) XOR (not64 x AND z)"

definition maj :: "int \<Rightarrow> int \<Rightarrow> int \<Rightarrow> int" where
  "maj x y z = (x AND y) XOR (x AND z) XOR (y AND z)"

fun next_window :: "int list \<Rightarrow> int list" where
  "next_window [w0, w1, w2, w3, w4, w5, w6, w7, w8, w9, w10, w11, w12, w13, w14, w15] =
     [w1, w2, w3, w4, w5, w6, w7, w8, w9, w10, w11, w12, w13, w14, w15,
      add64 (add64 (add64 (ssig1 w14) w9) (ssig0 w1)) w0]"
| "next_window ws = ws"

fun round_with :: "int \<Rightarrow> sha_state \<Rightarrow> sha_state" where
  "round_with t1 (a, b, c, d, e, f, g, h) =
     (add64 t1 (add64 (bsig0 a) (maj a b c)), a, b, c, add64 d t1, e, f, g)"

fun round :: "int \<Rightarrow> int \<Rightarrow> sha_state \<Rightarrow> sha_state" where
  "round k w (a, b, c, d, e, f, g, h) =
     round_with (add64 (add64 (add64 (add64 h (bsig1 e)) (ch e f g)) k) w)
       (a, b, c, d, e, f, g, h)"

fun sha_step :: "int \<Rightarrow> int list \<times> sha_state \<Rightarrow> int list \<times> sha_state" where
  "sha_step k (w # ws, s) = (next_window (w # ws), round k w s)"
| "sha_step k ([], s) = ([], s)"

fun rounds :: "int list \<Rightarrow> int list \<times> sha_state \<Rightarrow> int list \<times> sha_state" where
  "rounds [] ws = ws"
| "rounds (k # ks) ws = rounds ks (sha_step k ws)"

fun words_of :: "int list \<Rightarrow> int list" where
  "words_of (b0 # b1 # b2 # b3 # b4 # b5 # b6 # b7 # bs) =
     (((((((b0 * 256 + b1) * 256 + b2) * 256 + b3) * 256 + b4) * 256 + b5) * 256 + b6) * 256 + b7)
     # words_of bs"
| "words_of bs = []"

fun add_state :: "sha_state \<Rightarrow> sha_state \<Rightarrow> sha_state" where
  "add_state (a, b, c, d, e, f, g, h) (a', b', c', d', e', f', g', h') =
     (add64 a a', add64 b b', add64 c c', add64 d d', add64 e e', add64 f f', add64 g g',
      add64 h h')"

definition compress :: "sha_state \<Rightarrow> int list \<Rightarrow> sha_state" where
  "compress hs block = add_state hs (snd (rounds K512 (words_of block, hs)))"

function sha_blocks :: "sha_state \<Rightarrow> int list \<Rightarrow> sha_state" where
  "sha_blocks hs bs =
     (if length bs < 128 then hs else sha_blocks (compress hs (take 128 bs)) (drop 128 bs))"
  by pat_completeness auto
termination
  by (relation "measure (\<lambda>(hs, bs). length bs)") auto

fun be_bytes :: "nat \<Rightarrow> int \<Rightarrow> int list" where
  "be_bytes 0 v = []"
| "be_bytes (Suc n) v = be_bytes n (v div 256) @ [v mod 256]"

definition sha_pad :: "int list \<Rightarrow> int list" where
  "sha_pad m =
     m @ [128] @ replicate ((239 - length m mod 128) mod 128) 0
     @ be_bytes 16 (8 * int (length m))"

fun state_bytes :: "sha_state \<Rightarrow> int list" where
  "state_bytes (a, b, c, d, e, f, g, h) =
     be_bytes 8 a @ be_bytes 8 b @ be_bytes 8 c @ be_bytes 8 d
     @ be_bytes 8 e @ be_bytes 8 f @ be_bytes 8 g @ be_bytes 8 h"

definition sha512_int :: "int list \<Rightarrow> int list" where
  "sha512_int m = state_bytes (sha_blocks H512 (sha_pad m))"

definition sha512_ref :: "byte list \<Rightarrow> byte list" where
  "sha512_ref data = map of_int (sha512_int (map uint data))"

subsection \<open>Upper case\<close>

text \<open>
  Modelled from the spec: \<open>String.prototype.toUpperCase\<close> is a built-in function and
  not in the repository; the spec says of the ticker only that it is "upper-cased".  The
  definition turns the ASCII letters a to z into A to Z and leaves every other code unit
  as it is.  It is the built-in function on strings of ASCII characters only: the built-in
  function follows Unicode and, for example, turns U+00E9 into U+00C9 and U+00DF into SS.
\<close>

definition toUpperCase_ascii :: "jsstring \<Rightarrow> jsstring" where
  "toUpperCase_ascii s = map ascii_upper s"

subsection \<open>The instance\<close>

text \<open>
  The instance upper-cases by \<open>toUpperCase_ascii\<close>: what is stated of it for a denom
  is stated for a denom of ASCII characters.
\<close>

definition cosmjs :: "decimal externals" where
  "cosmjs =
     \<lparr>Bech32_decode = Bech32_decode_ref,
      Bech32_encode = Bech32_encode_ref,
      fromBase64 = fromBase64_ref,
      toBase64 = toBase64_ref,
      sha512 = sha512_ref,
      Decimal_fromAtomics = Decimal_fromAtomics_ref,
      Decimal_toString = Decimal_toString_ref,
      toUpperCase = toUpperCase_ascii\<rparr>"

section \<open>Example inputs\<close>

text \<open>A configuration of the Cosmos Hub, with a display ticker in mixed case.\<close>

definition env_cosmos :: env where
  "env_cosmos =
     \<lparr>NEXT_PUBLIC_DENOM = Val (lit ''uatom''),
      NEXT_PUBLIC_DISPLAY_DENOM = Val (lit ''Atom''),
      NEXT_PUBLIC_DISPLAY_DENOM_EXPONENT = Integer 6,
      NEXT_PUBLIC_ADDRESS_PREFIX = Val (lit ''cosmos''),
      NEXT_PUBLIC_EXPLORER_LINK_TX = Val (lit ''https://www.mintscan.io/cosmos/txs/%s'')\<rparr>"

text \<open>The payload of the address seed and the bytes of the public key seed.\<close>

definition seed_payload :: "byte list" where
  "seed_payload =
     [96, 3, 47, 201, 208, 36, 225, 58, 29, 188, 64, 158, 227, 241, 126, 183, 39, 229, 159, 240]"

definition seed_pubkey :: "byte list" where
  "seed_pubkey =
     [2, 71, 127, 168, 163, 22, 117, 149, 242, 136, 201, 210, 187, 166, 133, 46, 148, 4, 24, 51,
      180, 138, 60, 154, 151, 217, 151, 80, 135, 21, 104, 243, 87]"

section \<open>The claims in the spec's words, where they differ from the module\<close>

text \<open>
  C1 in the spec's words: each iteration takes the first 33 bytes of the SHA-512 of the
  data and forces byte 0 to 0x02 when the index is even and to 0x03 when it is odd.
\<close>

definition pubkey_body_spec :: "'d externals \<Rightarrow> int \<Rightarrow> byte list \<Rightarrow> byte list" where
  "pubkey_body_spec X index data =
     (take 33 (sha512 X data))[0 := (if even index then 0x02 else 0x03)]"

definition examplePubkey_spec :: "'d externals \<Rightarrow> int \<Rightarrow> error + jsstring" where
  "examplePubkey_spec X index =
     (case fromBase64 X pubkey_seed of
        Inl e \<Rightarrow> Inl e
      | Inr data \<Rightarrow> Inr (toBase64 X ((pubkey_body_spec X index ^^ nat index) data)))"

text \<open>
  C8 in the spec's words: the template with the first occurrence of \<open>%s\<close> replaced by the
  hash, the hash taken as it is.
\<close>

definition substitute_first :: "jsstring \<Rightarrow> jsstring \<Rightarrow> jsstring \<Rightarrow> jsstring" where
  "substitute_first s p r =
     (case indexOf s p of
        None \<Rightarrow> s
      | Some pos \<Rightarrow> take pos s @ r @ drop (pos + length p) s)"

section \<open>Properties\<close>

subsection \<open>Built-in operations\<close>

lemma length_lit: "length (lit s) = length s"
  by (simp add: lit_def)

lemma slice_first: "n \<le> length s \<Longrightarrow> slice_js s 0 (Some (int n)) = take n s"
  by (simp add: slice_js_def Let_def min_def)

lemma slice_last:
  "0 < n \<Longrightarrow> n \<le> length s \<Longrightarrow> slice_js s (- int n) None = drop (length s - n) s"
  by (simp add: slice_js_def Let_def max_def nat_diff_distrib')

subsection \<open>The loop of the generators\<close>

declare for_loop.simps [simp del]

lemma for_loop_funpow:
  "i \<le> usedIndex \<Longrightarrow> for_loop body i usedIndex data = (body ^^ nat (usedIndex - i)) data"
proof (induction body i usedIndex data rule: for_loop.induct)
  case (1 body i usedIndex data)
  show ?case
  proof (cases "i < usedIndex")
    case True
    then have "nat (usedIndex - i) = Suc (nat (usedIndex - (i + 1)))"
      by simp
    with True 1 show ?thesis
      by (subst for_loop.simps) (simp add: funpow_swap1)
  next
    case False
    with 1 show ?thesis
      by (subst for_loop.simps) simp
  qed
qed

lemma for_loop_none: "usedIndex \<le> i \<Longrightarrow> for_loop body i usedIndex data = data"
  by (subst for_loop.simps) simp

lemma for_loop_from_0:
  "for_loop body 0 usedIndex data = (body ^^ nat usedIndex) data"
proof (cases "0 \<le> usedIndex")
  case True
  then show ?thesis using for_loop_funpow [of 0 usedIndex body data] by simp
next
  case False
  then show ?thesis by (simp add: for_loop_none)
qed

lemma index_rem2_truthy_odd: "index_rem2_truthy (Val n) = odd n"
proof -
  have "(\<bar>n\<bar> mod 2 \<noteq> 0) = odd n"
    by presburger
  then show ?thesis
    by (cases "n = 0") (simp_all add: rem_js_def sgn_if)
qed

lemma funpow_invariant:
  assumes "P x" and "\<And>y. P y \<Longrightarrow> f y = g y \<and> P (g y)"
  shows "(f ^^ k) x = (g ^^ k) x \<and> P ((g ^^ k) x)"
  using assms by (induction k) auto

lemma hash_and_trim_take:
  "length data \<le> length (sha512 X data) \<Longrightarrow>
   hash_and_trim X data = take (length data) (sha512 X data)"
  by (simp add: hash_and_trim_def slice_first)

text \<open>
  C1 (as amended).  For an index of at least 1, the loop of examplePubkey runs index times;
  each iteration replaces the 33 bytes by the first 33 bytes of the SHA-512 of the data
  and then sets byte 0 to 0x02 when the index parameter is odd and to 0x03 when it is
  even, by the same test in every iteration; the result is the base64 encoding of the
  final bytes.
\<close>

theorem examplePubkey_iterates:
  assumes "1 \<le> n"
    and "fromBase64 X pubkey_seed = Inr d0"
    and "length d0 = 33"
    and "\<forall>m. length (sha512 X m) = 64"
  shows "examplePubkey X (Val n) =
    Inr (toBase64 X
      (((\<lambda>data. (take 33 (sha512 X data))[0 := (if odd n then 0x02 else 0x03)]) ^^ nat n) d0))"
proof -
  let ?g = "\<lambda>data. (take 33 (sha512 X data))[0 := (if odd n then 0x02 else 0x03)]"
  have step: "pubkey_body X (Val n) y = ?g y \<and> length (?g y) = 33" if "length y = 33" for y
    using that assms(4)
    by (simp add: pubkey_body_def hash_and_trim_take index_rem2_truthy_odd
        del: index_rem2_truthy.simps)
  have "(pubkey_body X (Val n) ^^ nat n) d0 = (?g ^^ nat n) d0"
    using funpow_invariant [of "\<lambda>y. length y = 33" d0 "pubkey_body X (Val n)" ?g "nat n"]
      assms(3) step by blast
  with assms(1,2) show ?thesis
    by (simp add: examplePubkey_def for_loop_from_0)
qed

subsection \<open>Coins and addresses, for every instance of the imports\<close>

lemma lit_u: "lit ''u'' = [0x75]"
  by (simp add: lit_def)

lemma denom_startsWith_u_iff: "denom_startsWith_u d \<longleftrightarrow> (\<exists>rest. d = Val (0x75 # rest))"
proof (cases d)
  case (Val s)
  then show ?thesis
    by (cases s) (simp_all add: startsWith_def lit_u)
qed simp_all

lemma slice_from_1: "slice_js (x # xs) 1 None = xs"
  by (simp add: slice_js_def)

text \<open>
  C2 (as amended).  For a coin that is not missing, printableCoin throws exactly when the
  denom is the native denom or starts with "u" and the decimal parser rejects the amount
  (the numeral "0" for a missing amount) at the exponent of that rule; the error is the
  parser's.  For every other denom it returns the amount and the denom as they are,
  whatever the amount.
\<close>

theorem printableCoin_throws:
  "(isl (printableCoin X E (Val c)) \<longleftrightarrow>
      (if denom c = NEXT_PUBLIC_DENOM E
       then isl (Decimal_fromAtomics X (nullish (amount c) (lit ''0''))
                  (NEXT_PUBLIC_DISPLAY_DENOM_EXPONENT E))
       else denom_startsWith_u (denom c) \<and>
            isl (Decimal_fromAtomics X (nullish (amount c) (lit ''0'')) (Integer 6)))) \<and>
   (\<forall>e. printableCoin X E (Val c) = Inl e \<longrightarrow>
      Decimal_fromAtomics X (nullish (amount c) (lit ''0''))
        (if denom c = NEXT_PUBLIC_DENOM E then NEXT_PUBLIC_DISPLAY_DENOM_EXPONENT E
         else Integer 6) = Inl e) \<and>
   (denom c \<noteq> NEXT_PUBLIC_DENOM E \<and> \<not> denom_startsWith_u (denom c) \<longrightarrow>
      printableCoin X E (Val c) = Inr (to_string (amount c) @ thinSpace @ to_string (denom c)))"
  by (auto simp: printableCoin_def split: sum.splits)

text \<open>
  C3.  checkAddress never throws.  It returns null exactly when the input is a non-empty
  string that the bech32 decoder accepts, with the configured address prefix and a payload
  of 20 bytes.  Otherwise it returns a message: "Empty" for an input that is undefined,
  null or the empty string, the decoder's error as a string when decoding fails, a message
  that names the expected and the actual prefix when they differ, and a fixed message when
  the payload is not 20 bytes long.
\<close>

theorem checkAddress_spec:
  "(\<exists>r. checkAddress X E input = Inr r) \<and>
   (checkAddress X E input = Inr Null \<longleftrightarrow>
      (\<exists>s prefix data. input = Val s \<and> s \<noteq> [] \<and> Bech32_decode X s = Inr (prefix, data) \<and>
         NEXT_PUBLIC_ADDRESS_PREFIX E = Val prefix \<and> length data = 20)) \<and>
   (input = Undefined \<or> input = Null \<or> input = Val [] \<longrightarrow>
      checkAddress X E input = Inr (Val (lit ''Empty''))) \<and>
   (\<forall>s e. input = Val s \<and> s \<noteq> [] \<and> Bech32_decode X s = Inl e \<longrightarrow>
      checkAddress X E input = Inr (Val (error_toString e))) \<and>
   (\<forall>s prefix data. input = Val s \<and> s \<noteq> [] \<and> Bech32_decode X s = Inr (prefix, data) \<and>
        NEXT_PUBLIC_ADDRESS_PREFIX E \<noteq> Val prefix \<longrightarrow>
      checkAddress X E input =
        Inr (Val (lit ''Expected address prefix '' @ [0x27]
                  @ to_string (NEXT_PUBLIC_ADDRESS_PREFIX E) @ [0x27]
                  @ lit '' but got '' @ [0x27] @ prefix @ [0x27]))) \<and>
   (\<forall>s prefix data. input = Val s \<and> s \<noteq> [] \<and> Bech32_decode X s = Inr (prefix, data) \<and>
        NEXT_PUBLIC_ADDRESS_PREFIX E = Val prefix \<and> length data \<noteq> 20 \<longrightarrow>
      checkAddress X E input =
        Inr (Val (lit ''Invalid address length in bech32 data. Must be 20 bytes.'')))"
  by (auto simp: checkAddress_def split: nullable.splits sum.splits prod.splits)

text \<open>
  C4.  printableCoins throws an error of its own when the number of coins is not exactly
  1, and for exactly one coin it gives what printableCoin gives for that coin.
\<close>

theorem printableCoins_spec:
  "(length coins \<noteq> 1 \<longrightarrow>
      printableCoins X E coins =
        Inl (Error (lit ''Error'') (lit ''Implementation only supports exactly one coin entry.''))) \<and>
   printableCoins X E [c] = printableCoin X E c"
  by (simp add: printableCoins_def)

text \<open>
  C5.  For a coin whose denom is the configured native denom, printableCoin applies the
  native rule (the configured exponent and display ticker), also when the denom starts
  with "u".  The rule for a leading "u" (exponent 6, the denom without its first character
  in upper case) applies to the coins whose denom starts with "u" and is not the native
  denom, and to no other coin.
\<close>

theorem printableCoin_native_first:
  "(denom c = NEXT_PUBLIC_DENOM E \<longrightarrow>
      printableCoin X E (Val c) =
        map_sum id (\<lambda>d. Decimal_toString X d @ thinSpace @ to_string (NEXT_PUBLIC_DISPLAY_DENOM E))
          (Decimal_fromAtomics X (nullish (amount c) (lit ''0''))
             (NEXT_PUBLIC_DISPLAY_DENOM_EXPONENT E))) \<and>
   (denom c \<noteq> NEXT_PUBLIC_DENOM E \<and> denom c = Val (0x75 # rest) \<longrightarrow>
      printableCoin X E (Val c) =
        map_sum id (\<lambda>d. Decimal_toString X d @ thinSpace @ toUpperCase X rest)
          (Decimal_fromAtomics X (nullish (amount c) (lit ''0'')) (Integer 6))) \<and>
   (denom c \<noteq> NEXT_PUBLIC_DENOM E \<and> \<not> (\<exists>rest. denom c = Val (0x75 # rest)) \<longrightarrow>
      printableCoin X E (Val c) = Inr (to_string (amount c) @ thinSpace @ to_string (denom c)))"
proof -
  have micro: "denom_startsWith_u (Val (0x75 # rest))"
    by (simp add: denom_startsWith_u_iff)
  show ?thesis
    by (cases "denom_startsWith_u (denom c)")
      (auto simp: printableCoin_def slice_from_1 micro denom_startsWith_u_iff
        simp del: denom_startsWith_u.simps split: sum.splits)
qed

lemma getSubstitution_plain:
  "0x24 \<notin> set r \<Longrightarrow> getSubstitution matched before after r = r"
  by (induction matched before after r rule: getSubstitution.induct) auto

lemma replace_js_plain: "0x24 \<notin> set r \<Longrightarrow> replace_js s p r = substitute_first s p r"
  by (simp add: replace_js_def substitute_first_def getSubstitution_plain split: option.splits)

text \<open>
  What explorerLinkTx does for a hash without a dollar sign: null when no template is
  configured (the variable is not set or empty), and otherwise the template with the first
  occurrence of \<open>%s\<close> replaced by the hash.
\<close>

lemma explorerLinkTx_plain:
  assumes "0x24 \<notin> set hash"
  shows "explorerLinkTx E hash =
    (case NEXT_PUBLIC_EXPLORER_LINK_TX E of
       Val template \<Rightarrow>
         if template = [] then Null else Val (substitute_first template (lit ''%s'') hash)
     | _ \<Rightarrow> Null)"
  using assms by (simp add: explorerLinkTx_def replace_js_plain split: nullable.splits)

lemma examplePubkey_falsy:
  "examplePubkey X Undefined = examplePubkey X (Val 0) \<and>
   examplePubkey X Null = examplePubkey X (Val 0) \<and>
   examplePubkey X (Val 0) = map_sum id (toBase64 X) (fromBase64 X pubkey_seed)"
  by (simp add: examplePubkey_def for_loop_none split: sum.splits)

lemma exampleAddress_0:
  "exampleAddress X E (Val 0) =
     (case Bech32_decode X address_seed of
        Inl e \<Rightarrow> Inl e
      | Inr (prefix, data) \<Rightarrow> Bech32_encode X (NEXT_PUBLIC_ADDRESS_PREFIX E) data)"
  by (simp add: exampleAddress_def for_loop_none split: sum.splits)

lemma exampleAddress_1:
  "exampleAddress X E (Val 1) =
     (case Bech32_decode X address_seed of
        Inl e \<Rightarrow> Inl e
      | Inr (prefix, data) \<Rightarrow>
          Bech32_encode X (NEXT_PUBLIC_ADDRESS_PREFIX E) (hash_and_trim X data))"
  using for_loop_from_0 [of "hash_and_trim X" 1]
  by (simp add: exampleAddress_def split: sum.splits)

lemma exampleAddress_env:
  "NEXT_PUBLIC_ADDRESS_PREFIX E = NEXT_PUBLIC_ADDRESS_PREFIX E' \<Longrightarrow>
   exampleAddress X E index = exampleAddress X E' index"
  by (simp add: exampleAddress_def split: sum.splits)

subsection \<open>Values of the reference instance\<close>

lemma cosmjs_simps:
  "Bech32_decode cosmjs = Bech32_decode_ref"
  "Bech32_encode cosmjs = Bech32_encode_ref"
  "fromBase64 cosmjs = fromBase64_ref"
  "toBase64 cosmjs = toBase64_ref"
  "sha512 cosmjs = sha512_ref"
  "Decimal_fromAtomics cosmjs = Decimal_fromAtomics_ref"
  "Decimal_toString cosmjs = Decimal_toString_ref"
  "toUpperCase cosmjs = toUpperCase_ascii"
  by (simp_all add: cosmjs_def)

lemma env_cosmos_simps:
  "NEXT_PUBLIC_DENOM env_cosmos = Val (lit ''uatom'')"
  "NEXT_PUBLIC_DISPLAY_DENOM env_cosmos = Val (lit ''Atom'')"
  "NEXT_PUBLIC_DISPLAY_DENOM_EXPONENT env_cosmos = Integer 6"
  "NEXT_PUBLIC_ADDRESS_PREFIX env_cosmos = Val (lit ''cosmos'')"
  "NEXT_PUBLIC_EXPLORER_LINK_TX env_cosmos = Val (lit ''https://www.mintscan.io/cosmos/txs/%s'')"
  by (simp_all add: env_cosmos_def)

lemma base64_alphabet_units:
  "base64_alphabet =
     [0x41, 0x42, 0x43, 0x44, 0x45, 0x46, 0x47, 0x48, 0x49, 0x4A, 0x4B, 0x4C, 0x4D, 0x4E, 0x4F,
     0x50, 0x51, 0x52, 0x53, 0x54, 0x55, 0x56, 0x57, 0x58, 0x59, 0x5A, 0x61, 0x62, 0x63, 0x64,
     0x65, 0x66, 0x67, 0x68, 0x69, 0x6A, 0x6B, 0x6C, 0x6D, 0x6E, 0x6F, 0x70, 0x71, 0x72, 0x73,
     0x74, 0x75, 0x76, 0x77, 0x78, 0x79, 0x7A, 0x30, 0x31, 0x32, 0x33, 0x34, 0x35, 0x36, 0x37,
     0x38, 0x39, 0x2B, 0x2F]"
  by (simp add: base64_alphabet_def lit_def)

lemma pubkey_seed_units:
  "pubkey_seed =
     [65, 107, 100, 47, 113, 75, 77, 87, 100, 90, 88, 121, 105, 77, 110, 83, 117, 54, 97, 70,
     76, 112, 81, 69, 71, 68, 79, 48, 105, 106, 121, 97, 108, 57, 109, 88, 85, 73, 99, 86, 97,
     80, 78, 88]"
  by (simp add: pubkey_seed_def lit_def)

lemma fromBase64_pubkey_seed: "fromBase64_ref pubkey_seed = Inr seed_pubkey"
  by (simp add: fromBase64_ref_def pubkey_seed_units base64_alphabet_units seed_pubkey_def)

lemma toBase64_seed_pubkey: "toBase64_ref seed_pubkey = pubkey_seed"
  by (simp add: toBase64_ref_def pubkey_seed_units base64_alphabet_units seed_pubkey_def
      base64_char_def)

lemma nat_toString_numeral:
  "nat_toString (numeral k) =
     (if (numeral k :: nat) < 10 then [digit_char (numeral k)]
      else nat_toString (numeral k div 10) @ [digit_char (numeral k mod 10)])"
  by (rule nat_toString.simps)

lemma nat_toString_0: "nat_toString 0 = [0x30]"
  by (simp add: digit_char_def)

lemma nat_toString_1: "nat_toString (Suc 0) = [0x31]"
  by (simp add: digit_char_def)

declare nat_toString.simps [simp del]

lemma replicate_numeral: "replicate (numeral k) x = x # replicate (pred_numeral k) x"
  by (simp add: numeral_eq_Suc)

lemmas decimal_eval =
  Decimal_fromAtomics_ref_def nat_toString_numeral nat_toString_0 nat_toString_1 digit_char_def
  padStart_zeros_def replicate_numeral

lemma Decimal_zero:
  "Decimal_fromAtomics_ref (lit ''0'') (Integer 6) = Inr (Decimal 0 6)"
  "Decimal_toString_ref (Decimal 0 6) = lit ''0''"
  by (simp_all add: decimal_eval lit_def)

lemma Decimal_1234567:
  "Decimal_fromAtomics_ref (lit ''1234567'') (Integer 6) = Inr (Decimal 1234567 6)"
  "Decimal_toString_ref (Decimal 1234567 6) = lit ''1.234567''"
  by (simp_all add: decimal_eval lit_def)

lemma Decimal_1000000:
  "Decimal_fromAtomics_ref (lit ''1000000'') (Integer 6) = Inr (Decimal 1000000 6)"
  "Decimal_toString_ref (Decimal 1000000 6) = lit ''1''"
  by (simp_all add: decimal_eval lit_def)

lemma Decimal_1500:
  "Decimal_fromAtomics_ref (lit ''1500'') (Integer 6) = Inr (Decimal 1500 6)"
  "Decimal_toString_ref (Decimal 1500 6) = lit ''0.0015''"
  by (simp_all add: decimal_eval lit_def)

subsection \<open>Coins, the key seed and the explorer link at the reference instance\<close>

lemmas printableCoin_eval =
  cosmjs_simps env_cosmos_simps lit_def thinSpace_def dash_def decimal_eval ascii_upper_def
  toUpperCase_ascii_def startsWith_def slice_js_def

theorem printableCoin_throws_witness:
  "isl (printableCoin cosmjs env_cosmos
          (Val \<lparr>amount = Val (lit ''abc''), denom = Val (lit ''uatom'')\<rparr>)) \<and>
   isl (printableCoin cosmjs env_cosmos
          (Val \<lparr>amount = Val (lit ''abc''), denom = Val (lit ''uosmo'')\<rparr>)) \<and>
   \<not> isl (printableCoin cosmjs env_cosmos
          (Val \<lparr>amount = Val (lit ''1500''), denom = Val (lit ''uatom'')\<rparr>)) \<and>
   printableCoin cosmjs env_cosmos
     (Val \<lparr>amount = Val (lit ''abc''), denom = Val (lit ''foo'')\<rparr>) =
     Inr (lit ''abc'' @ thinSpace @ lit ''foo'')"
proof -
  note iff = printableCoin_throws [THEN conjunct1]
  note fallback = printableCoin_throws [THEN conjunct2, THEN conjunct2]
  have "isl (printableCoin cosmjs env_cosmos
          (Val \<lparr>amount = Val (lit ''abc''), denom = Val (lit ''uatom'')\<rparr>))"
    by (simp add: iff printableCoin_eval)
  moreover have "isl (printableCoin cosmjs env_cosmos
          (Val \<lparr>amount = Val (lit ''abc''), denom = Val (lit ''uosmo'')\<rparr>))"
    by (simp add: iff printableCoin_eval)
  moreover have "\<not> isl (printableCoin cosmjs env_cosmos
          (Val \<lparr>amount = Val (lit ''1500''), denom = Val (lit ''uatom'')\<rparr>))"
    by (simp add: iff printableCoin_eval)
  moreover have "printableCoin cosmjs env_cosmos
     (Val \<lparr>amount = Val (lit ''abc''), denom = Val (lit ''foo'')\<rparr>) =
     Inr (lit ''abc'' @ thinSpace @ lit ''foo'')"
    using fallback [of "\<lparr>amount = Val (lit ''abc''), denom = Val (lit ''foo'')\<rparr>" env_cosmos cosmjs]
    by (simp add: printableCoin_eval)
  ultimately show ?thesis by blast
qed

text \<open>
  Against C2 as the spec states it: the parser rejects the amount "abc", and the coin with
  that amount and the denom "foo" is printed, not refused.
\<close>

theorem printableCoin_throws_counterexample:
  "printableCoin cosmjs env_cosmos
     (Val \<lparr>amount = Val (lit ''abc''), denom = Val (lit ''foo'')\<rparr>) =
     Inr (lit ''abc'' @ thinSpace @ lit ''foo'') \<and>
   isl (Decimal_fromAtomics cosmjs (lit ''abc'') (Integer 6)) \<and>
   isl (Decimal_fromAtomics cosmjs (lit ''abc'') (NEXT_PUBLIC_DISPLAY_DENOM_EXPONENT env_cosmos))"
  by (simp add: printableCoin_def printableCoin_eval)

theorem printableCoins_spec_witness:
  "printableCoins cosmjs env_cosmos [] =
     Inl (Error (lit ''Error'') (lit ''Implementation only supports exactly one coin entry.'')) \<and>
   printableCoins cosmjs env_cosmos
     [Val \<lparr>amount = Val (lit ''5''), denom = Val (lit ''foo'')\<rparr>, Null] =
     Inl (Error (lit ''Error'') (lit ''Implementation only supports exactly one coin entry.'')) \<and>
   printableCoins cosmjs env_cosmos [Val \<lparr>amount = Val (lit ''5''), denom = Val (lit ''foo'')\<rparr>] =
     Inr (lit ''5'' @ thinSpace @ lit ''foo'')"
  using
    printableCoins_spec [of "[]" cosmjs env_cosmos Null]
    printableCoins_spec [of "[Val \<lparr>amount = Val (lit ''5''), denom = Val (lit ''foo'')\<rparr>, Null]"
      cosmjs env_cosmos "Val \<lparr>amount = Val (lit ''5''), denom = Val (lit ''foo'')\<rparr>"]
  by (simp add: printableCoin_def printableCoin_eval)

theorem printableCoin_native_first_witness:
  "printableCoin cosmjs env_cosmos
     (Val \<lparr>amount = Val (lit ''1234567''), denom = Val (lit ''uatom'')\<rparr>) =
     Inr (lit ''1.234567'' @ thinSpace @ lit ''Atom'') \<and>
   printableCoin cosmjs env_cosmos
     (Val \<lparr>amount = Val (lit ''1234567''), denom = Val (lit ''uosmo'')\<rparr>) =
     Inr (lit ''1.234567'' @ thinSpace @ lit ''OSMO'') \<and>
   printableCoin cosmjs env_cosmos
     (Val \<lparr>amount = Val (lit ''1234567''), denom = Val (lit ''foo'')\<rparr>) =
     Inr (lit ''1234567'' @ thinSpace @ lit ''foo'')"
  using
    printableCoin_native_first [where X = cosmjs and E = env_cosmos and rest = "lit ''atom''"
      and c = "\<lparr>amount = Val (lit ''1234567''), denom = Val (lit ''uatom'')\<rparr>"]
    printableCoin_native_first [where X = cosmjs and E = env_cosmos and rest = "lit ''osmo''"
      and c = "\<lparr>amount = Val (lit ''1234567''), denom = Val (lit ''uosmo'')\<rparr>"]
    printableCoin_native_first [where X = cosmjs and E = env_cosmos and rest = "[]"
      and c = "\<lparr>amount = Val (lit ''1234567''), denom = Val (lit ''foo'')\<rparr>"]
  by (simp add: printableCoin_eval)

lemma Decimal_fromAtomics_zero:
  "0 \<le> n \<Longrightarrow> n \<le> 100 \<Longrightarrow>
   Decimal_fromAtomics_ref (lit ''0'') (Integer n) = Inr (Decimal 0 (nat n))"
  by (simp add: Decimal_fromAtomics_ref_def lit_def)

lemma Decimal_toString_zero: "Decimal_toString_ref (Decimal 0 k) = lit ''0''"
  by (simp add: nat_toString_0 lit_def)

lemma Decimal_fromAtomics_exponent:
  "\<not> (\<exists>n. e = Integer n \<and> 0 \<le> n \<and> n \<le> 100) \<Longrightarrow> isl (Decimal_fromAtomics_ref a e)"
  by (cases e) (auto simp: Decimal_fromAtomics_ref_def)

text \<open>
  C9 (as amended).  For a coin whose amount is undefined or null, the native rule and the
  rule for a leading "u" parse the numeral "0" in its place: the result is that of the
  same coin with the amount "0".  Wherever the parser accepts "0" at the exponent of the
  rule, the result is the formatted zero, the narrow no-break space and the ticker, not an
  error.  With the decimal parser of the reference instance that is so for every coin
  under the rule for a leading "u" (exponent 6), and under the native rule when the
  configured exponent is an integer from 0 to 100; with any other configured exponent the
  native rule throws.
\<close>

theorem printableCoin_missing_amount:
  assumes "amount c = Undefined \<or> amount c = Null"
  shows
    "(denom c = NEXT_PUBLIC_DENOM E \<or> denom_startsWith_u (denom c) \<longrightarrow>
        printableCoin X E (Val c) = printableCoin X E (Val (c\<lparr>amount := Val (lit ''0'')\<rparr>))) \<and>
     (denom c = NEXT_PUBLIC_DENOM E \<and>
        Decimal_fromAtomics X (lit ''0'') (NEXT_PUBLIC_DISPLAY_DENOM_EXPONENT E) = Inr z \<longrightarrow>
        printableCoin X E (Val c) =
          Inr (Decimal_toString X z @ thinSpace @ to_string (NEXT_PUBLIC_DISPLAY_DENOM E))) \<and>
     (denom c \<noteq> NEXT_PUBLIC_DENOM E \<and> denom c = Val (0x75 # rest) \<and>
        Decimal_fromAtomics X (lit ''0'') (Integer 6) = Inr z \<longrightarrow>
        printableCoin X E (Val c) = Inr (Decimal_toString X z @ thinSpace @ toUpperCase X rest)) \<and>
     (denom c \<noteq> NEXT_PUBLIC_DENOM E \<and> denom c = Val (0x75 # rest) \<longrightarrow>
        printableCoin cosmjs E (Val c) = Inr (lit ''0'' @ thinSpace @ toUpperCase cosmjs rest)) \<and>
     (denom c = NEXT_PUBLIC_DENOM E \<and> NEXT_PUBLIC_DISPLAY_DENOM_EXPONENT E = Integer n \<and>
        0 \<le> n \<and> n \<le> 100 \<longrightarrow>
        printableCoin cosmjs E (Val c) =
          Inr (lit ''0'' @ thinSpace @ to_string (NEXT_PUBLIC_DISPLAY_DENOM E))) \<and>
     (denom c = NEXT_PUBLIC_DENOM E \<and>
        \<not> (\<exists>k. NEXT_PUBLIC_DISPLAY_DENOM_EXPONENT E = Integer k \<and> 0 \<le> k \<and> k \<le> 100) \<longrightarrow>
        isl (printableCoin cosmjs E (Val c)))"
proof -
  have zero: "nullish (amount c) (lit ''0'') = lit ''0''"
    using assms by auto
  have micro: "denom_startsWith_u (Val (0x75 # rest))"
    by (simp add: denom_startsWith_u_iff)
  have general: "(denom c = NEXT_PUBLIC_DENOM E \<or> denom_startsWith_u (denom c) \<longrightarrow>
        printableCoin X E (Val c) = printableCoin X E (Val (c\<lparr>amount := Val (lit ''0'')\<rparr>))) \<and>
     (denom c = NEXT_PUBLIC_DENOM E \<and>
        Decimal_fromAtomics X (lit ''0'') (NEXT_PUBLIC_DISPLAY_DENOM_EXPONENT E) = Inr z \<longrightarrow>
        printableCoin X E (Val c) =
          Inr (Decimal_toString X z @ thinSpace @ to_string (NEXT_PUBLIC_DISPLAY_DENOM E))) \<and>
     (denom c \<noteq> NEXT_PUBLIC_DENOM E \<and> denom c = Val (0x75 # rest) \<and>
        Decimal_fromAtomics X (lit ''0'') (Integer 6) = Inr z \<longrightarrow>
        printableCoin X E (Val c) = Inr (Decimal_toString X z @ thinSpace @ toUpperCase X rest))"
    by (auto simp: printableCoin_def zero micro slice_from_1 simp del: denom_startsWith_u.simps
        split: sum.splits)
  have six: "Decimal_fromAtomics_ref (lit ''0'') (Integer 6) = Inr (Decimal 0 6)"
    using Decimal_fromAtomics_zero [of 6] by simp
  have u: "denom c \<noteq> NEXT_PUBLIC_DENOM E \<and> denom c = Val (0x75 # rest) \<longrightarrow>
        printableCoin cosmjs E (Val c) = Inr (lit ''0'' @ thinSpace @ toUpperCase cosmjs rest)"
    by (auto simp: printableCoin_def zero micro slice_from_1 cosmjs_simps six
        Decimal_toString_zero simp del: denom_startsWith_u.simps Decimal_toString_ref.simps)
  have native: "denom c = NEXT_PUBLIC_DENOM E \<and> NEXT_PUBLIC_DISPLAY_DENOM_EXPONENT E = Integer n \<and>
        0 \<le> n \<and> n \<le> 100 \<longrightarrow>
        printableCoin cosmjs E (Val c) =
          Inr (lit ''0'' @ thinSpace @ to_string (NEXT_PUBLIC_DISPLAY_DENOM E))"
    by (auto simp: printableCoin_def zero cosmjs_simps Decimal_fromAtomics_zero
        Decimal_toString_zero simp del: Decimal_toString_ref.simps)
  have bad: "denom c = NEXT_PUBLIC_DENOM E \<and>
        \<not> (\<exists>k. NEXT_PUBLIC_DISPLAY_DENOM_EXPONENT E = Integer k \<and> 0 \<le> k \<and> k \<le> 100) \<longrightarrow>
        isl (printableCoin cosmjs E (Val c))"
  proof (intro impI, elim conjE)
    assume native_denom: "denom c = NEXT_PUBLIC_DENOM E"
    assume "\<not> (\<exists>k. NEXT_PUBLIC_DISPLAY_DENOM_EXPONENT E = Integer k \<and> 0 \<le> k \<and> k \<le> 100)"
    then have "isl (Decimal_fromAtomics_ref (lit ''0'') (NEXT_PUBLIC_DISPLAY_DENOM_EXPONENT E))"
      by (rule Decimal_fromAtomics_exponent)
    then obtain e where
      "Decimal_fromAtomics_ref (lit ''0'') (NEXT_PUBLIC_DISPLAY_DENOM_EXPONENT E) = Inl e"
      by (auto simp: isl_def)
    with native_denom show "isl (printableCoin cosmjs E (Val c))"
      by (simp add: printableCoin_def zero cosmjs_simps)
  qed
  from general u native bad show ?thesis by blast
qed

text \<open>
  Against C9 as the spec states it: with the exponent not configured (the number is NaN), a
  coin of the native denom without an amount is refused with the parser's error.
\<close>

theorem printableCoin_missing_amount_counterexample:
  "printableCoin cosmjs (env_cosmos\<lparr>NEXT_PUBLIC_DISPLAY_DENOM_EXPONENT := NonInteger\<rparr>)
     (Val \<lparr>amount = Undefined, denom = Val (lit ''uatom'')\<rparr>) =
     Inl (Error (lit ''Error'') (lit ''Fractional digits is not an integer''))"
  by (simp add: printableCoin_def cosmjs_simps env_cosmos_def Decimal_fromAtomics_ref_def)

theorem printableCoin_missing_amount_witness:
  "printableCoin cosmjs env_cosmos (Val \<lparr>amount = Undefined, denom = Val (lit ''uatom'')\<rparr>) =
     Inr (lit ''0'' @ thinSpace @ lit ''Atom'') \<and>
   printableCoin cosmjs env_cosmos (Val \<lparr>amount = Null, denom = Val (lit ''uosmo'')\<rparr>) =
     Inr (lit ''0'' @ thinSpace @ lit ''OSMO'') \<and>
   isl (printableCoin cosmjs (env_cosmos\<lparr>NEXT_PUBLIC_DISPLAY_DENOM_EXPONENT := Integer 101\<rparr>)
     (Val \<lparr>amount = Null, denom = Val (lit ''uatom'')\<rparr>))"
proof -
  have "printableCoin cosmjs env_cosmos (Val \<lparr>amount = Undefined, denom = Val (lit ''uatom'')\<rparr>) =
     Inr (lit ''0'' @ thinSpace @ lit ''Atom'')"
    using printableCoin_missing_amount [where E = env_cosmos and n = 6
      and c = "\<lparr>amount = Undefined, denom = Val (lit ''uatom'')\<rparr>",
      THEN conjunct2, THEN conjunct2, THEN conjunct2, THEN conjunct2, THEN conjunct1]
    by (simp add: env_cosmos_simps)
  moreover have "printableCoin cosmjs env_cosmos (Val \<lparr>amount = Null, denom = Val (lit ''uosmo'')\<rparr>) =
     Inr (lit ''0'' @ thinSpace @ lit ''OSMO'')"
    using printableCoin_missing_amount [where E = env_cosmos and rest = "lit ''osmo''"
      and c = "\<lparr>amount = Null, denom = Val (lit ''uosmo'')\<rparr>",
      THEN conjunct2, THEN conjunct2, THEN conjunct2, THEN conjunct1]
    by (simp add: printableCoin_eval)
  moreover have "isl (printableCoin cosmjs (env_cosmos\<lparr>NEXT_PUBLIC_DISPLAY_DENOM_EXPONENT := Integer 101\<rparr>)
     (Val \<lparr>amount = Null, denom = Val (lit ''uatom'')\<rparr>))"
    using printableCoin_missing_amount [where E = "env_cosmos\<lparr>NEXT_PUBLIC_DISPLAY_DENOM_EXPONENT := Integer 101\<rparr>"
      and c = "\<lparr>amount = Null, denom = Val (lit ''uatom'')\<rparr>",
      THEN conjunct2, THEN conjunct2, THEN conjunct2, THEN conjunct2, THEN conjunct2]
    by (simp add: env_cosmos_def)
  ultimately show ?thesis by blast
qed

text \<open>
  C10.  examplePubkey(0) is the base64 seed itself: the loop body is not run, byte 0 is not
  set, and encoding the decoded seed gives the seed back.  An index that is undefined or
  null is taken as 0 and gives the same result.
\<close>

theorem examplePubkey_0:
  "examplePubkey cosmjs (Val 0) = Inr pubkey_seed \<and>
   examplePubkey X (Val 0) = map_sum id (toBase64 X) (fromBase64 X pubkey_seed) \<and>
   examplePubkey X Undefined = examplePubkey X (Val 0) \<and>
   examplePubkey X Null = examplePubkey X (Val 0)"
  using examplePubkey_falsy [of cosmjs] examplePubkey_falsy [of X]
  by (simp add: cosmjs_simps fromBase64_pubkey_seed toBase64_seed_pubkey)

theorem examplePubkey_0_witness:
  "examplePubkey cosmjs Undefined = Inr pubkey_seed \<and>
   examplePubkey cosmjs Null = Inr pubkey_seed \<and>
   examplePubkey cosmjs (Val 0) = Inr (lit ''Akd/qKMWdZXyiMnSu6aFLpQEGDO0ijyal9mXUIcVaPNX'')"
  using examplePubkey_0 [of cosmjs] by (simp add: pubkey_seed_def)


text \<open>
  C8, at a hash that holds a replacement pattern: for the hash \<open>$&\<close> the module returns the
  template unchanged, with its \<open>%s\<close>, where the claim has the template with \<open>%s\<close>
  replaced by the hash.
\<close>

theorem explorerLinkTx_dollar:
  "explorerLinkTx env_cosmos (lit ''$&'') = Val (lit ''https://www.mintscan.io/cosmos/txs/%s'') \<and>
   substitute_first (lit ''https://www.mintscan.io/cosmos/txs/%s'') (lit ''%s'') (lit ''$&'') =
     lit ''https://www.mintscan.io/cosmos/txs/$&''"
  by (simp add: explorerLinkTx_def env_cosmos_simps replace_js_def substitute_first_def
      startsWith_def lit_def)

subsection \<open>SHA-512 of the two seeds and of a test vector\<close>

lemma rounds_append: "rounds (ks @ ks') ws = rounds ks' (rounds ks ws)"
  by (induction ks arbitrary: ws) simp_all

lemma be_bytes_numeral: "be_bytes (numeral n) v = be_bytes (pred_numeral n) (v div 256) @ [v mod 256]"
  by (simp add: numeral_eq_Suc)

lemma sha_blocks_single: "length bs = 128 \<Longrightarrow> sha_blocks hs bs = compress hs bs"
  by simp

lemmas sha_round_defs =
  add64_def rotr_def shr_def not64_def ssig0_def ssig1_def bsig0_def bsig1_def ch_def maj_def

lemma K512_chunks:
  "K512 =
     [4794697086780616226, 8158064640168781261, 13096744586834688815, 16840607885511220156,
     4131703408338449720, 6480981068601479193, 10538285296894168987, 12329834152419229976]
     @      [15566598209576043074, 1334009975649890238, 2608012711638119052, 6128411473006802146,
     8268148722764581231, 9286055187155687089, 11230858885718282805, 13951009754708518548]
     @      [16472876342353939154, 17275323862435702243, 1135362057144423861, 2597628984639134821,
     3308224258029322869, 5365058923640841347, 6679025012923562964, 8573033837759648693]
     @      [10970295158949994411, 12119686244451234320, 12683024718118986047, 13788192230050041572,
     14330467153632333762, 15395433587784984357, 489312712824947311, 1452737877330783856]
     @      [2861767655752347644, 3322285676063803686, 5560940570517711597, 5996557281743188959,
     7280758554555802590, 8532644243296465576, 9350256976987008742, 10552545826968843579]
     @      [11727347734174303076, 12113106623233404929, 14000437183269869457, 14369950271660146224,
     15101387698204529176, 15463397548674623760, 17586052441742319658, 1182934255886127544]
     @      [1847814050463011016, 2177327727835720531, 2830643537854262169, 3796741975233480872,
     4115178125766777443, 5681478168544905931, 6601373596472566643, 7507060721942968483]
     @      [8399075790359081724, 8693463985226723168, 9568029438360202098, 10144078919501101548,
     10430055236837252648, 11840083180663258601, 13761210420658862357, 14299343276471374635]
     @      [14566680578165727644, 15097957966210449927, 16922976911328602910, 17689382322260857208,
     500013540394364858, 748580250866718886, 1242879168328830382, 1977374033974150939]
     @      [2944078676154940804, 3659926193048069267, 4368137639120453308, 4836135668995329356,
     5532061633213252278, 6448918945643986474, 6902733635092675308, 7801388544844847127]"
  by (simp add: K512_def)

lemma length_be_bytes: "length (be_bytes n v) = n"
  by (induction n arbitrary: v) simp_all

lemma length_sha512_ref: "length (sha512_ref m) = 64"
proof -
  obtain a b c d e f g h where "sha_blocks H512 (sha_pad (map uint m)) = (a, b, c, d, e, f, g, h)"
    by (metis prod_cases3)
  then show ?thesis
    by (simp add: sha512_ref_def sha512_int_def length_be_bytes)
qed

lemma sha_payload_pad:
  "sha_pad
     [96, 3, 47, 201, 208, 36, 225, 58, 29, 188, 64, 158, 227, 241, 126, 183, 39, 229, 159,
     240] =
     [96, 3, 47, 201, 208, 36, 225, 58, 29, 188, 64, 158, 227, 241, 126, 183, 39, 229, 159,
     240, 128, 0, 0, 0, 0, 0, 0, 0, 0, 0, 0, 0, 0, 0, 0, 0, 0, 0, 0, 0, 0, 0, 0, 0, 0, 0, 0, 0,
     0, 0, 0, 0, 0, 0, 0, 0, 0, 0, 0, 0, 0, 0, 0, 0, 0, 0, 0, 0, 0, 0, 0, 0, 0, 0, 0, 0, 0, 0,
     0, 0, 0, 0, 0, 0, 0, 0, 0, 0, 0, 0, 0, 0, 0, 0, 0, 0, 0, 0, 0, 0, 0, 0, 0, 0, 0, 0, 0, 0,
     0, 0, 0, 0, 0, 0, 0, 0, 0, 0, 0, 0, 0, 0, 0, 0, 0, 0, 0, 160]"
  by (simp add: sha_pad_def replicate_numeral be_bytes_numeral)

lemma sha_payload_words:
  "words_of
     [96, 3, 47, 201, 208, 36, 225, 58, 29, 188, 64, 158, 227, 241, 126, 183, 39, 229, 159,
     240, 128, 0, 0, 0, 0, 0, 0, 0, 0, 0, 0, 0, 0, 0, 0, 0, 0, 0, 0, 0, 0, 0, 0, 0, 0, 0, 0, 0,
     0, 0, 0, 0, 0, 0, 0, 0, 0, 0, 0, 0, 0, 0, 0, 0, 0, 0, 0, 0, 0, 0, 0, 0, 0, 0, 0, 0, 0, 0,
     0, 0, 0, 0, 0, 0, 0, 0, 0, 0, 0, 0, 0, 0, 0, 0, 0, 0, 0, 0, 0, 0, 0, 0, 0, 0, 0, 0, 0, 0,
     0, 0, 0, 0, 0, 0, 0, 0, 0, 0, 0, 0, 0, 0, 0, 0, 0, 0, 0, 160] =
     [6918425996398223674, 2142658573894778551, 2874879792434380800, 0, 0, 0, 0, 0, 0, 0, 0, 0,
     0, 0, 0, 160]"
  by simp

lemma sha_payload_rounds_0:
  "rounds
     [4794697086780616226, 8158064640168781261, 13096744586834688815, 16840607885511220156,
     4131703408338449720, 6480981068601479193, 10538285296894168987, 12329834152419229976]
     ([6918425996398223674, 2142658573894778551, 2874879792434380800, 0, 0, 0, 0, 0, 0, 0, 0,
      0, 0, 0, 0, 160],
      (7640891576956012808, 13503953896175478587, 4354685564936845355, 11912009170470909681,
      5840696475078001361, 11170449401992604703, 2270897969802886507, 6620516959819538809)) =
     ([0, 0, 0, 0, 0, 0, 0, 160, 11095765952858525202, 3560977276003779513,
      2606073027788235468, 13541063021595934057, 5592383186606273771, 4187980354962200020,
      8883928879418284504, 12439934350405095454],
      (9183090134495386825, 15575467452724106984, 4670999889070979585, 3040032583129831909,
      12182311563483999958, 7920780969453557805, 11016119354113540190, 14577255871726768899))"
  by (simp add: sha_round_defs)

lemma sha_payload_rounds_1:
  "rounds
     [15566598209576043074, 1334009975649890238, 2608012711638119052, 6128411473006802146,
     8268148722764581231, 9286055187155687089, 11230858885718282805, 13951009754708518548]
     ([0, 0, 0, 0, 0, 0, 0, 160, 11095765952858525202, 3560977276003779513,
      2606073027788235468, 13541063021595934057, 5592383186606273771, 4187980354962200020,
      8883928879418284504, 12439934350405095454],
      (9183090134495386825, 15575467452724106984, 4670999889070979585, 3040032583129831909,
      12182311563483999958, 7920780969453557805, 11016119354113540190, 14577255871726768899)) =
     ([11095765952858525202, 3560977276003779513, 2606073027788235468, 13541063021595934057,
      5592383186606273771, 4187980354962200020, 8883928879418284504, 12439934350405095454,
      6481093967730874766, 3591631835234196067, 15693163364763177517, 10585563373417924990,
      14521517204426265294, 14963649659765375111, 4174023323679941499, 9198714155959764179],
      (9550155097380306324, 6454267824485287215, 11157182931567183500, 17461080486699997889,
      2599841702830125855, 14603530482748315139, 3363106007379325080, 5069076893951864055))"
  by (simp add: sha_round_defs)

lemma sha_payload_rounds_2:
  "rounds
     [16472876342353939154, 17275323862435702243, 1135362057144423861, 2597628984639134821,
     3308224258029322869, 5365058923640841347, 6679025012923562964, 8573033837759648693]
     ([11095765952858525202, 3560977276003779513, 2606073027788235468, 13541063021595934057,
      5592383186606273771, 4187980354962200020, 8883928879418284504, 12439934350405095454,
      6481093967730874766, 3591631835234196067, 15693163364763177517, 10585563373417924990,
      14521517204426265294, 14963649659765375111, 4174023323679941499, 9198714155959764179],
      (9550155097380306324, 6454267824485287215, 11157182931567183500, 17461080486699997889,
      2599841702830125855, 14603530482748315139, 3363106007379325080, 5069076893951864055)) =
     ([6481093967730874766, 3591631835234196067, 15693163364763177517, 10585563373417924990,
      14521517204426265294, 14963649659765375111, 4174023323679941499, 9198714155959764179,
      10491838570658001053, 996846116367469865, 15911851773265309684, 8199201988907507620,
      4514581181644509539, 2715007357662214946, 10125642598877008664, 12317496875332411045],
      (11171998690644393511, 12052482013656332243, 11243856577397201587, 10581380652731204932,
      3249067029846187523, 12864449805467998248, 17165992101691283088, 12767044331072823939))"
  by (simp add: sha_round_defs)

lemma sha_payload_rounds_3:
  "rounds
     [10970295158949994411, 12119686244451234320, 12683024718118986047, 13788192230050041572,
     14330467153632333762, 15395433587784984357, 489312712824947311, 1452737877330783856]
     ([6481093967730874766, 3591631835234196067, 15693163364763177517, 10585563373417924990,
      14521517204426265294, 14963649659765375111, 4174023323679941499, 9198714155959764179,
      10491838570658001053, 996846116367469865, 15911851773265309684, 8199201988907507620,
      4514581181644509539, 2715007357662214946, 10125642598877008664, 12317496875332411045],
      (11171998690644393511, 12052482013656332243, 11243856577397201587, 10581380652731204932,
      3249067029846187523, 12864449805467998248, 17165992101691283088, 12767044331072823939)) =
     ([10491838570658001053, 996846116367469865, 15911851773265309684, 8199201988907507620,
      4514581181644509539, 2715007357662214946, 10125642598877008664, 12317496875332411045,
      15565141495996195506, 11976308238362307785, 4142485230043752930, 15837802983717828012,
      8568612984506370217, 8606278295170789514, 8120722367403530180, 638465747083588876],
      (4809831528080570314, 16868403287297511037, 10723956953183460727, 17281774443978950014,
      11933093915222038647, 7355711056737814352, 7668384935143357990, 8092969851852192123))"
  by (simp add: sha_round_defs)

lemma sha_payload_rounds_4:
  "rounds
     [2861767655752347644, 3322285676063803686, 5560940570517711597, 5996557281743188959,
     7280758554555802590, 8532644243296465576, 9350256976987008742, 10552545826968843579]
     ([10491838570658001053, 996846116367469865, 15911851773265309684, 8199201988907507620,
      4514581181644509539, 2715007357662214946, 10125642598877008664, 12317496875332411045,
      15565141495996195506, 11976308238362307785, 4142485230043752930, 15837802983717828012,
      8568612984506370217, 8606278295170789514, 8120722367403530180, 638465747083588876],
      (4809831528080570314, 16868403287297511037, 10723956953183460727, 17281774443978950014,
      11933093915222038647, 7355711056737814352, 7668384935143357990, 8092969851852192123)) =
     ([15565141495996195506, 11976308238362307785, 4142485230043752930, 15837802983717828012,
      8568612984506370217, 8606278295170789514, 8120722367403530180, 638465747083588876,
      7960727996473662802, 1927438227341536646, 11445678206705612190, 11307081496839103023,
      1819453367357833322, 7464817309433149178, 16176759845354755614, 6077579362192224235],
      (10672201650913882861, 16482721848562403510, 10453207913610938615, 3492798975471880849,
      12729335931186713925, 11879246063164761648, 14801543693539957044, 8585167992817575430))"
  by (simp add: sha_round_defs)

lemma sha_payload_rounds_5:
  "rounds
     [11727347734174303076, 12113106623233404929, 14000437183269869457, 14369950271660146224,
     15101387698204529176, 15463397548674623760, 17586052441742319658, 1182934255886127544]
     ([15565141495996195506, 11976308238362307785, 4142485230043752930, 15837802983717828012,
      8568612984506370217, 8606278295170789514, 8120722367403530180, 638465747083588876,
      7960727996473662802, 1927438227341536646, 11445678206705612190, 11307081496839103023,
      1819453367357833322, 7464817309433149178, 16176759845354755614, 6077579362192224235],
      (10672201650913882861, 16482721848562403510, 10453207913610938615, 3492798975471880849,
      12729335931186713925, 11879246063164761648, 14801543693539957044, 8585167992817575430)) =
     ([7960727996473662802, 1927438227341536646, 11445678206705612190, 11307081496839103023,
      1819453367357833322, 7464817309433149178, 16176759845354755614, 6077579362192224235,
      11055099944752299347, 12831793791095817861, 13079784220398235742, 2486119806437752896,
      5235621906901107966, 9888050020333906939, 1331369060253574602, 4496943086256846279],
      (9788006049071595212, 12608067212821498482, 7211009399853733789, 7699207466881957105,
      7595096748587226407, 1529294596512869013, 11374550310824020083, 15186870680526241267))"
  by (simp add: sha_round_defs)

lemma sha_payload_rounds_6:
  "rounds
     [1847814050463011016, 2177327727835720531, 2830643537854262169, 3796741975233480872,
     4115178125766777443, 5681478168544905931, 6601373596472566643, 7507060721942968483]
     ([7960727996473662802, 1927438227341536646, 11445678206705612190, 11307081496839103023,
      1819453367357833322, 7464817309433149178, 16176759845354755614, 6077579362192224235,
      11055099944752299347, 12831793791095817861, 13079784220398235742, 2486119806437752896,
      5235621906901107966, 9888050020333906939, 1331369060253574602, 4496943086256846279],
      (9788006049071595212, 12608067212821498482, 7211009399853733789, 7699207466881957105,
      7595096748587226407, 1529294596512869013, 11374550310824020083, 15186870680526241267)) =
     ([11055099944752299347, 12831793791095817861, 13079784220398235742, 2486119806437752896,
      5235621906901107966, 9888050020333906939, 1331369060253574602, 4496943086256846279,
      14068505696669417656, 1013531743991287926, 17661179189249296996, 17796265954970295222,
      18315589072810440900, 8689411964775105486, 16019102304677034498, 6548265973896506147],
      (13300710510760295641, 1694130841727435546, 7551870004136983859, 13949252124700584559,
      290154372470900055, 17170122032155092093, 8105211957525271806, 5096605069567855377))"
  by (simp add: sha_round_defs)

lemma sha_payload_rounds_7:
  "rounds
     [8399075790359081724, 8693463985226723168, 9568029438360202098, 10144078919501101548,
     10430055236837252648, 11840083180663258601, 13761210420658862357, 14299343276471374635]
     ([11055099944752299347, 12831793791095817861, 13079784220398235742, 2486119806437752896,
      5235621906901107966, 9888050020333906939, 1331369060253574602, 4496943086256846279,
      14068505696669417656, 1013531743991287926, 17661179189249296996, 17796265954970295222,
      18315589072810440900, 8689411964775105486, 16019102304677034498, 6548265973896506147],
      (13300710510760295641, 1694130841727435546, 7551870004136983859, 13949252124700584559,
      290154372470900055, 17170122032155092093, 8105211957525271806, 5096605069567855377)) =
     ([14068505696669417656, 1013531743991287926, 17661179189249296996, 17796265954970295222,
      18315589072810440900, 8689411964775105486, 16019102304677034498, 6548265973896506147,
      14096114040238596085, 8599800349993823506, 3580624382219780639, 10517694660601264040,
      10108886193061287560, 15389714900428228551, 13871244660371327616, 4186217090871218633],
      (1427698377396353005, 6537760040547234488, 13578817319162396800, 5355884414403991259,
      7036728363625007720, 11569568984934721771, 15842616334189363165, 13360569981178811301))"
  by (simp add: sha_round_defs)

lemma sha_payload_rounds_8:
  "rounds
     [14566680578165727644, 15097957966210449927, 16922976911328602910, 17689382322260857208,
     500013540394364858, 748580250866718886, 1242879168328830382, 1977374033974150939]
     ([14068505696669417656, 1013531743991287926, 17661179189249296996, 17796265954970295222,
      18315589072810440900, 8689411964775105486, 16019102304677034498, 6548265973896506147,
      14096114040238596085, 8599800349993823506, 3580624382219780639, 10517694660601264040,
      10108886193061287560, 15389714900428228551, 13871244660371327616, 4186217090871218633],
      (1427698377396353005, 6537760040547234488, 13578817319162396800, 5355884414403991259,
      7036728363625007720, 11569568984934721771, 15842616334189363165, 13360569981178811301)) =
     ([14096114040238596085, 8599800349993823506, 3580624382219780639, 10517694660601264040,
      10108886193061287560, 15389714900428228551, 13871244660371327616, 4186217090871218633,
      11675225878896518311, 13359808335604337360, 14528636998610141552, 7916089899591849370,
      3210005531093306505, 15795795715713968319, 12414650663156045303, 7081520216246129416],
      (145992096401163640, 4664999198659626213, 3815549988408409746, 13961133535789951143,
      15781817138682525547, 8090688585263046997, 16493249985391995924, 8485152170578917535))"
  by (simp add: sha_round_defs)

lemma sha_payload_rounds_9:
  "rounds
     [2944078676154940804, 3659926193048069267, 4368137639120453308, 4836135668995329356,
     5532061633213252278, 6448918945643986474, 6902733635092675308, 7801388544844847127]
     ([14096114040238596085, 8599800349993823506, 3580624382219780639, 10517694660601264040,
      10108886193061287560, 15389714900428228551, 13871244660371327616, 4186217090871218633,
      11675225878896518311, 13359808335604337360, 14528636998610141552, 7916089899591849370,
      3210005531093306505, 15795795715713968319, 12414650663156045303, 7081520216246129416],
      (145992096401163640, 4664999198659626213, 3815549988408409746, 13961133535789951143,
      15781817138682525547, 8090688585263046997, 16493249985391995924, 8485152170578917535)) =
     ([11675225878896518311, 13359808335604337360, 14528636998610141552, 7916089899591849370,
      3210005531093306505, 15795795715713968319, 12414650663156045303, 7081520216246129416,
      13870819375009746072, 18041521600922313591, 8809113182572114266, 1925387920546968914,
      4753339625884647917, 9647040634282535362, 1551992370742487031, 12872281253798652373],
      (15115819713471725747, 15474165563311336416, 10404771307318010987, 14114427153252732954,
      10437268944923881434, 13823171161053302699, 3948678476475790867, 87727448549823303))"
  by (simp add: sha_round_defs)

lemma sha_payload_rounds:
  "rounds K512
     ([6918425996398223674, 2142658573894778551, 2874879792434380800, 0, 0, 0, 0, 0, 0, 0, 0,
      0, 0, 0, 0, 160],
      H512) =
     ([11675225878896518311, 13359808335604337360, 14528636998610141552, 7916089899591849370,
      3210005531093306505, 15795795715713968319, 12414650663156045303, 7081520216246129416,
      13870819375009746072, 18041521600922313591, 8809113182572114266, 1925387920546968914,
      4753339625884647917, 9647040634282535362, 1551992370742487031, 12872281253798652373],
      (15115819713471725747, 15474165563311336416, 10404771307318010987, 14114427153252732954,
      10437268944923881434, 13823171161053302699, 3948678476475790867, 87727448549823303))"
  by (simp only: K512_chunks rounds_append H512_def sha_payload_rounds_0 sha_payload_rounds_1 sha_payload_rounds_2 sha_payload_rounds_3 sha_payload_rounds_4 sha_payload_rounds_5 sha_payload_rounds_6 sha_payload_rounds_7 sha_payload_rounds_8 sha_payload_rounds_9)

lemma sha_payload_int:
  "sha512_int
     [96, 3, 47, 201, 208, 36, 225, 58, 29, 188, 64, 158, 227, 241, 126, 183, 39, 229, 159,
     240] =
     [59, 208, 20, 89, 50, 17, 9, 187, 146, 38, 246, 29, 161, 139, 211, 27, 204, 212, 31, 211,
     140, 114, 220, 150, 105, 48, 121, 241, 68, 223, 7, 11, 225, 230, 243, 78, 29, 77, 242,
     171, 90, 219, 45, 122, 239, 63, 251, 202, 86, 80, 95, 211, 61, 211, 179, 126, 93, 24, 120,
     191, 99, 91, 52, 192]"
  by (simp add: sha512_int_def sha_payload_pad sha_blocks_single compress_def sha_payload_words sha_payload_rounds add64_def
      be_bytes_numeral del: sha_blocks.simps words_of.simps rounds.simps)
     (simp add: H512_def add64_def be_bytes_numeral)

lemma sha_payload_digest:
  "sha512_ref
     [96, 3, 47, 201, 208, 36, 225, 58, 29, 188, 64, 158, 227, 241, 126, 183, 39, 229, 159,
     240] =
     [59, 208, 20, 89, 50, 17, 9, 187, 146, 38, 246, 29, 161, 139, 211, 27, 204, 212, 31, 211,
     140, 114, 220, 150, 105, 48, 121, 241, 68, 223, 7, 11, 225, 230, 243, 78, 29, 77, 242,
     171, 90, 219, 45, 122, 239, 63, 251, 202, 86, 80, 95, 211, 61, 211, 179, 126, 93, 24, 120,
     191, 99, 91, 52, 192]"
  by (simp add: sha512_ref_def sha_payload_int)

lemma sha_payload_seed_payload:
  "sha512_ref seed_payload =
     [59, 208, 20, 89, 50, 17, 9, 187, 146, 38, 246, 29, 161, 139, 211, 27, 204, 212, 31, 211,
     140, 114, 220, 150, 105, 48, 121, 241, 68, 223, 7, 11, 225, 230, 243, 78, 29, 77, 242,
     171, 90, 219, 45, 122, 239, 63, 251, 202, 86, 80, 95, 211, 61, 211, 179, 126, 93, 24, 120,
     191, 99, 91, 52, 192]"
  by (simp add: seed_payload_def sha_payload_digest)

lemma sha_pubkey_pad:
  "sha_pad
     [2, 71, 127, 168, 163, 22, 117, 149, 242, 136, 201, 210, 187, 166, 133, 46, 148, 4, 24,
     51, 180, 138, 60, 154, 151, 217, 151, 80, 135, 21, 104, 243, 87] =
     [2, 71, 127, 168, 163, 22, 117, 149, 242, 136, 201, 210, 187, 166, 133, 46, 148, 4, 24,
     51, 180, 138, 60, 154, 151, 217, 151, 80, 135, 21, 104, 243, 87, 128, 0, 0, 0, 0, 0, 0, 0,
     0, 0, 0, 0, 0, 0, 0, 0, 0, 0, 0, 0, 0, 0, 0, 0, 0, 0, 0, 0, 0, 0, 0, 0, 0, 0, 0, 0, 0, 0,
     0, 0, 0, 0, 0, 0, 0, 0, 0, 0, 0, 0, 0, 0, 0, 0, 0, 0, 0, 0, 0, 0, 0, 0, 0, 0, 0, 0, 0, 0,
     0, 0, 0, 0, 0, 0, 0, 0, 0, 0, 0, 0, 0, 0, 0, 0, 0, 0, 0, 0, 0, 0, 0, 0, 0, 1, 8]"
  by (simp add: sha_pad_def replicate_numeral be_bytes_numeral)

lemma sha_pubkey_words:
  "words_of
     [2, 71, 127, 168, 163, 22, 117, 149, 242, 136, 201, 210, 187, 166, 133, 46, 148, 4, 24,
     51, 180, 138, 60, 154, 151, 217, 151, 80, 135, 21, 104, 243, 87, 128, 0, 0, 0, 0, 0, 0, 0,
     0, 0, 0, 0, 0, 0, 0, 0, 0, 0, 0, 0, 0, 0, 0, 0, 0, 0, 0, 0, 0, 0, 0, 0, 0, 0, 0, 0, 0, 0,
     0, 0, 0, 0, 0, 0, 0, 0, 0, 0, 0, 0, 0, 0, 0, 0, 0, 0, 0, 0, 0, 0, 0, 0, 0, 0, 0, 0, 0, 0,
     0, 0, 0, 0, 0, 0, 0, 0, 0, 0, 0, 0, 0, 0, 0, 0, 0, 0, 0, 0, 0, 0, 0, 0, 0, 1, 8] =
     [164240273689703829, 17476440260939777326, 10665676427871534234, 10941943141792835827,
     6305039478318694400, 0, 0, 0, 0, 0, 0, 0, 0, 0, 0, 264]"
  by simp

lemma sha_pubkey_rounds_0:
  "rounds
     [4794697086780616226, 8158064640168781261, 13096744586834688815, 16840607885511220156,
     4131703408338449720, 6480981068601479193, 10538285296894168987, 12329834152419229976]
     ([164240273689703829, 17476440260939777326, 10665676427871534234, 10941943141792835827,
      6305039478318694400, 0, 0, 0, 0, 0, 0, 0, 0, 0, 0, 264],
      (7640891576956012808, 13503953896175478587, 4354685564936845355, 11912009170470909681,
      5840696475078001361, 11170449401992604703, 2270897969802886507, 6620516959819538809)) =
     ([0, 0, 0, 0, 0, 0, 0, 264, 6384834729966182061, 14152502473809399162,
      15259573765957033232, 9552889999132034967, 10829505650623096069, 10841796609930707638,
      9559042328175619455, 10537542146087306157],
      (5901408556279921196, 2088219535847403341, 9710912072143103910, 15474523065087731393,
      2689922110059644808, 1165421749664641667, 17153102246933188439, 11623073314064137944))"
  by (simp add: sha_round_defs)

lemma sha_pubkey_rounds_1:
  "rounds
     [15566598209576043074, 1334009975649890238, 2608012711638119052, 6128411473006802146,
     8268148722764581231, 9286055187155687089, 11230858885718282805, 13951009754708518548]
     ([0, 0, 0, 0, 0, 0, 0, 264, 6384834729966182061, 14152502473809399162,
      15259573765957033232, 9552889999132034967, 10829505650623096069, 10841796609930707638,
      9559042328175619455, 10537542146087306157],
      (5901408556279921196, 2088219535847403341, 9710912072143103910, 15474523065087731393,
      2689922110059644808, 1165421749664641667, 17153102246933188439, 11623073314064137944)) =
     ([6384834729966182061, 14152502473809399162, 15259573765957033232, 9552889999132034967,
      10829505650623096069, 10841796609930707638, 9559042328175619455, 10537542146087306157,
      8602097904791851949, 18419894813444277141, 4413858938218146564, 10723909024141785041,
      1014073135480052702, 6262032428847763360, 5625867831889641922, 6961186443764437692],
      (9857712128111132632, 12344008334270334024, 18210033133871357276, 10548496021545063251,
      15849427048795207065, 5679095812520161329, 13049274888671168764, 4725897904151576003))"
  by (simp add: sha_round_defs)

lemma sha_pubkey_rounds_2:
  "rounds
     [16472876342353939154, 17275323862435702243, 1135362057144423861, 2597628984639134821,
     3308224258029322869, 5365058923640841347, 6679025012923562964, 8573033837759648693]
     ([6384834729966182061, 14152502473809399162, 15259573765957033232, 9552889999132034967,
      10829505650623096069, 10841796609930707638, 9559042328175619455, 10537542146087306157,
      8602097904791851949, 18419894813444277141, 4413858938218146564, 10723909024141785041,
      1014073135480052702, 6262032428847763360, 5625867831889641922, 6961186443764437692],
      (9857712128111132632, 12344008334270334024, 18210033133871357276, 10548496021545063251,
      15849427048795207065, 5679095812520161329, 13049274888671168764, 4725897904151576003)) =
     ([8602097904791851949, 18419894813444277141, 4413858938218146564, 10723909024141785041,
      1014073135480052702, 6262032428847763360, 5625867831889641922, 6961186443764437692,
      7733852331501534243, 9316937045733818111, 3018872543958208904, 17437580310874504341,
      10912473423797121759, 14772710755517313437, 16315668384535484618, 3519792988570435296],
      (4676766289961236246, 7385829965614889864, 17282094458530032862, 11344846943407318552,
      12274409049942622566, 11628842674142437039, 14958911826119168541, 4807801576246796192))"
  by (simp add: sha_round_defs)

lemma sha_pubkey_rounds_3:
  "rounds
     [10970295158949994411, 12119686244451234320, 12683024718118986047, 13788192230050041572,
     14330467153632333762, 15395433587784984357, 489312712824947311, 1452737877330783856]
     ([8602097904791851949, 18419894813444277141, 4413858938218146564, 10723909024141785041,
      1014073135480052702, 6262032428847763360, 5625867831889641922, 6961186443764437692,
      7733852331501534243, 9316937045733818111, 3018872543958208904, 17437580310874504341,
      10912473423797121759, 14772710755517313437, 16315668384535484618, 3519792988570435296],
      (4676766289961236246, 7385829965614889864, 17282094458530032862, 11344846943407318552,
      12274409049942622566, 11628842674142437039, 14958911826119168541, 4807801576246796192)) =
     ([7733852331501534243, 9316937045733818111, 3018872543958208904, 17437580310874504341,
      10912473423797121759, 14772710755517313437, 16315668384535484618, 3519792988570435296,
      6374180735451502103, 10828642492070306314, 4188932369863201022, 1837492001017944352,
      12864094293543437763, 15452553091180860474, 14562932054135253374, 2411133148940281144],
      (15132112808248573141, 18085327616365733712, 10937911226389162526, 129789061420687777,
      7709073198849018617, 8922832202520233735, 7064280498593364127, 12206768036165556505))"
  by (simp add: sha_round_defs)

lemma sha_pubkey_rounds_4:
  "rounds
     [2861767655752347644, 3322285676063803686, 5560940570517711597, 5996557281743188959,
     7280758554555802590, 8532644243296465576, 9350256976987008742, 10552545826968843579]
     ([7733852331501534243, 9316937045733818111, 3018872543958208904, 17437580310874504341,
      10912473423797121759, 14772710755517313437, 16315668384535484618, 3519792988570435296,
      6374180735451502103, 10828642492070306314, 4188932369863201022, 1837492001017944352,
      12864094293543437763, 15452553091180860474, 14562932054135253374, 2411133148940281144],
      (15132112808248573141, 18085327616365733712, 10937911226389162526, 129789061420687777,
      7709073198849018617, 8922832202520233735, 7064280498593364127, 12206768036165556505)) =
     ([6374180735451502103, 10828642492070306314, 4188932369863201022, 1837492001017944352,
      12864094293543437763, 15452553091180860474, 14562932054135253374, 2411133148940281144,
      12000384518239521528, 9766494214303266624, 17860404219093234317, 8232952893082205479,
      10674647887846057104, 17119693854887753920, 11816629103820515053, 7726431428107831277],
      (6984461123488647031, 3106571903586431227, 12967328183134568753, 8919829835614434727,
      17674225670089072856, 18309004695511834691, 13426310840500956783, 15746607151547944872))"
  by (simp add: sha_round_defs)

lemma sha_pubkey_rounds_5:
  "rounds
     [11727347734174303076, 12113106623233404929, 14000437183269869457, 14369950271660146224,
     15101387698204529176, 15463397548674623760, 17586052441742319658, 1182934255886127544]
     ([6374180735451502103, 10828642492070306314, 4188932369863201022, 1837492001017944352,
      12864094293543437763, 15452553091180860474, 14562932054135253374, 2411133148940281144,
      12000384518239521528, 9766494214303266624, 17860404219093234317, 8232952893082205479,
      10674647887846057104, 17119693854887753920, 11816629103820515053, 7726431428107831277],
      (6984461123488647031, 3106571903586431227, 12967328183134568753, 8919829835614434727,
      17674225670089072856, 18309004695511834691, 13426310840500956783, 15746607151547944872)) =
     ([12000384518239521528, 9766494214303266624, 17860404219093234317, 8232952893082205479,
      10674647887846057104, 17119693854887753920, 11816629103820515053, 7726431428107831277,
      9967310678642396104, 14565364191997933682, 3104757796335126213, 18332780573344778831,
      9882572737162996571, 16044948326418550693, 327855708076216222, 12560339803394392392],
      (1597065567730224659, 3010626895420665008, 11154718285816387770, 9090307654847254589,
      14965330545886526104, 9561610982302743761, 13031336708413618243, 4681521928977726846))"
  by (simp add: sha_round_defs)

lemma sha_pubkey_rounds_6:
  "rounds
     [1847814050463011016, 2177327727835720531, 2830643537854262169, 3796741975233480872,
     4115178125766777443, 5681478168544905931, 6601373596472566643, 7507060721942968483]
     ([12000384518239521528, 9766494214303266624, 17860404219093234317, 8232952893082205479,
      10674647887846057104, 17119693854887753920, 11816629103820515053, 7726431428107831277,
      9967310678642396104, 14565364191997933682, 3104757796335126213, 18332780573344778831,
      9882572737162996571, 16044948326418550693, 327855708076216222, 12560339803394392392],
      (1597065567730224659, 3010626895420665008, 11154718285816387770, 9090307654847254589,
      14965330545886526104, 9561610982302743761, 13031336708413618243, 4681521928977726846)) =
     ([9967310678642396104, 14565364191997933682, 3104757796335126213, 18332780573344778831,
      9882572737162996571, 16044948326418550693, 327855708076216222, 12560339803394392392,
      5224361599925133123, 17546150656314345286, 12379712012319496896, 11977936881751750960,
      8819970637244177646, 15829096295652876341, 7759984853155278461, 8249430150713163836],
      (11280063174428192115, 12483901596665060188, 13211505683797261727, 3684244466722434059,
      12281301108139661104, 4926117262117662296, 13939589096065607191, 10020752389474174592))"
  by (simp add: sha_round_defs)

lemma sha_pubkey_rounds_7:
  "rounds
     [8399075790359081724, 8693463985226723168, 9568029438360202098, 10144078919501101548,
     10430055236837252648, 11840083180663258601, 13761210420658862357, 14299343276471374635]
     ([9967310678642396104, 14565364191997933682, 3104757796335126213, 18332780573344778831,
      9882572737162996571, 16044948326418550693, 327855708076216222, 12560339803394392392,
      5224361599925133123, 17546150656314345286, 12379712012319496896, 11977936881751750960,
      8819970637244177646, 15829096295652876341, 7759984853155278461, 8249430150713163836],
      (11280063174428192115, 12483901596665060188, 13211505683797261727, 3684244466722434059,
      12281301108139661104, 4926117262117662296, 13939589096065607191, 10020752389474174592)) =
     ([5224361599925133123, 17546150656314345286, 12379712012319496896, 11977936881751750960,
      8819970637244177646, 15829096295652876341, 7759984853155278461, 8249430150713163836,
      14270786093780205956, 3528218208906259218, 16559801357031562873, 1796916410743129101,
      5107719584487550844, 7945904947243251158, 6468356038204115627, 7576475724430167126],
      (10365850371624851139, 9972936013794263130, 8589488373192568349, 1704170413254485105,
      18303990741843761896, 5363907845301974461, 12351733132110245213, 13345581819519961630))"
  by (simp add: sha_round_defs)

lemma sha_pubkey_rounds_8:
  "rounds
     [14566680578165727644, 15097957966210449927, 16922976911328602910, 17689382322260857208,
     500013540394364858, 748580250866718886, 1242879168328830382, 1977374033974150939]
     ([5224361599925133123, 17546150656314345286, 12379712012319496896, 11977936881751750960,
      8819970637244177646, 15829096295652876341, 7759984853155278461, 8249430150713163836,
      14270786093780205956, 3528218208906259218, 16559801357031562873, 1796916410743129101,
      5107719584487550844, 7945904947243251158, 6468356038204115627, 7576475724430167126],
      (10365850371624851139, 9972936013794263130, 8589488373192568349, 1704170413254485105,
      18303990741843761896, 5363907845301974461, 12351733132110245213, 13345581819519961630)) =
     ([14270786093780205956, 3528218208906259218, 16559801357031562873, 1796916410743129101,
      5107719584487550844, 7945904947243251158, 6468356038204115627, 7576475724430167126,
      10259175493826364620, 2193687716991553168, 8076214393200012330, 6557753951649800917,
      17243743455782745839, 15784283479420624669, 12218793885611924361, 16721790396058516439],
      (9928352124992598805, 7625300738590489035, 961868008290544418, 16637624299539207060,
      15185513370903337234, 11420974471301603393, 2591597372481024819, 12699562039752357346))"
  by (simp add: sha_round_defs)

lemma sha_pubkey_rounds_9:
  "rounds
     [2944078676154940804, 3659926193048069267, 4368137639120453308, 4836135668995329356,
     5532061633213252278, 6448918945643986474, 6902733635092675308, 7801388544844847127]
     ([14270786093780205956, 3528218208906259218, 16559801357031562873, 1796916410743129101,
      5107719584487550844, 7945904947243251158, 6468356038204115627, 7576475724430167126,
      10259175493826364620, 2193687716991553168, 8076214393200012330, 6557753951649800917,
      17243743455782745839, 15784283479420624669, 12218793885611924361, 16721790396058516439],
      (9928352124992598805, 7625300738590489035, 961868008290544418, 16637624299539207060,
      15185513370903337234, 11420974471301603393, 2591597372481024819, 12699562039752357346)) =
     ([10259175493826364620, 2193687716991553168, 8076214393200012330, 6557753951649800917,
      17243743455782745839, 15784283479420624669, 12218793885611924361, 16721790396058516439,
      15852746212326439896, 5798601408516228477, 9095604315708332549, 18023526136792191156,
      3956470258226629944, 4601888435653385844, 18030970969363055819, 12518564538641414292],
      (17144527512301497651, 13235930606551322713, 8905977226791989496, 11143534197144622307,
      5302957773818551344, 8576379643573125486, 8312113547505831270, 18014606123088611543))"
  by (simp add: sha_round_defs)

lemma sha_pubkey_rounds:
  "rounds K512
     ([164240273689703829, 17476440260939777326, 10665676427871534234, 10941943141792835827,
      6305039478318694400, 0, 0, 0, 0, 0, 0, 0, 0, 0, 0, 264],
      H512) =
     ([10259175493826364620, 2193687716991553168, 8076214393200012330, 6557753951649800917,
      17243743455782745839, 15784283479420624669, 12218793885611924361, 16721790396058516439,
      15852746212326439896, 5798601408516228477, 9095604315708332549, 18023526136792191156,
      3956470258226629944, 4601888435653385844, 18030970969363055819, 12518564538641414292],
      (17144527512301497651, 13235930606551322713, 8905977226791989496, 11143534197144622307,
      5302957773818551344, 8576379643573125486, 8312113547505831270, 18014606123088611543))"
  by (simp only: K512_chunks rounds_append H512_def sha_pubkey_rounds_0 sha_pubkey_rounds_1 sha_pubkey_rounds_2 sha_pubkey_rounds_3 sha_pubkey_rounds_4 sha_pubkey_rounds_5 sha_pubkey_rounds_6 sha_pubkey_rounds_7 sha_pubkey_rounds_8 sha_pubkey_rounds_9)

lemma sha_pubkey_int:
  "sha512_int
     [2, 71, 127, 168, 163, 22, 117, 149, 242, 136, 201, 210, 187, 166, 133, 46, 148, 4, 24,
     51, 180, 138, 60, 154, 151, 217, 151, 80, 135, 21, 104, 243, 87] =
     [87, 247, 127, 87, 200, 97, 54, 59, 115, 23, 39, 72, 0, 0, 247, 148, 184, 7, 86, 141, 19,
     60, 169, 35, 63, 245, 190, 138, 18, 86, 75, 212, 154, 166, 54, 127, 109, 64, 95, 1, 18,
     10, 212, 100, 205, 79, 173, 141, 146, 222, 104, 231, 95, 13, 202, 209, 85, 225, 137, 235,
     226, 196, 42, 80]"
  by (simp add: sha512_int_def sha_pubkey_pad sha_blocks_single compress_def sha_pubkey_words sha_pubkey_rounds add64_def
      be_bytes_numeral del: sha_blocks.simps words_of.simps rounds.simps)
     (simp add: H512_def add64_def be_bytes_numeral)

lemma sha_pubkey_digest:
  "sha512_ref
     [2, 71, 127, 168, 163, 22, 117, 149, 242, 136, 201, 210, 187, 166, 133, 46, 148, 4, 24,
     51, 180, 138, 60, 154, 151, 217, 151, 80, 135, 21, 104, 243, 87] =
     [87, 247, 127, 87, 200, 97, 54, 59, 115, 23, 39, 72, 0, 0, 247, 148, 184, 7, 86, 141, 19,
     60, 169, 35, 63, 245, 190, 138, 18, 86, 75, 212, 154, 166, 54, 127, 109, 64, 95, 1, 18,
     10, 212, 100, 205, 79, 173, 141, 146, 222, 104, 231, 95, 13, 202, 209, 85, 225, 137, 235,
     226, 196, 42, 80]"
  by (simp add: sha512_ref_def sha_pubkey_int)

lemma sha_pubkey_seed_pubkey:
  "sha512_ref seed_pubkey =
     [87, 247, 127, 87, 200, 97, 54, 59, 115, 23, 39, 72, 0, 0, 247, 148, 184, 7, 86, 141, 19,
     60, 169, 35, 63, 245, 190, 138, 18, 86, 75, 212, 154, 166, 54, 127, 109, 64, 95, 1, 18,
     10, 212, 100, 205, 79, 173, 141, 146, 222, 104, 231, 95, 13, 202, 209, 85, 225, 137, 235,
     226, 196, 42, 80]"
  by (simp add: seed_pubkey_def sha_pubkey_digest)

text \<open>The digest of the message \<open>abc\<close>, as FIPS 180-4 gives it.\<close>

lemma sha_abc_pad:
  "sha_pad
     [97, 98, 99] =
     [97, 98, 99, 128, 0, 0, 0, 0, 0, 0, 0, 0, 0, 0, 0, 0, 0, 0, 0, 0, 0, 0, 0, 0, 0, 0, 0, 0,
     0, 0, 0, 0, 0, 0, 0, 0, 0, 0, 0, 0, 0, 0, 0, 0, 0, 0, 0, 0, 0, 0, 0, 0, 0, 0, 0, 0, 0, 0,
     0, 0, 0, 0, 0, 0, 0, 0, 0, 0, 0, 0, 0, 0, 0, 0, 0, 0, 0, 0, 0, 0, 0, 0, 0, 0, 0, 0, 0, 0,
     0, 0, 0, 0, 0, 0, 0, 0, 0, 0, 0, 0, 0, 0, 0, 0, 0, 0, 0, 0, 0, 0, 0, 0, 0, 0, 0, 0, 0, 0,
     0, 0, 0, 0, 0, 0, 0, 0, 0, 24]"
  by (simp add: sha_pad_def replicate_numeral be_bytes_numeral)

lemma sha_abc_words:
  "words_of
     [97, 98, 99, 128, 0, 0, 0, 0, 0, 0, 0, 0, 0, 0, 0, 0, 0, 0, 0, 0, 0, 0, 0, 0, 0, 0, 0, 0,
     0, 0, 0, 0, 0, 0, 0, 0, 0, 0, 0, 0, 0, 0, 0, 0, 0, 0, 0, 0, 0, 0, 0, 0, 0, 0, 0, 0, 0, 0,
     0, 0, 0, 0, 0, 0, 0, 0, 0, 0, 0, 0, 0, 0, 0, 0, 0, 0, 0, 0, 0, 0, 0, 0, 0, 0, 0, 0, 0, 0,
     0, 0, 0, 0, 0, 0, 0, 0, 0, 0, 0, 0, 0, 0, 0, 0, 0, 0, 0, 0, 0, 0, 0, 0, 0, 0, 0, 0, 0, 0,
     0, 0, 0, 0, 0, 0, 0, 0, 0, 24] =
     [7017280570803617792, 0, 0, 0, 0, 0, 0, 0, 0, 0, 0, 0, 0, 0, 0, 24]"
  by simp

lemma sha_abc_rounds_0:
  "rounds
     [4794697086780616226, 8158064640168781261, 13096744586834688815, 16840607885511220156,
     4131703408338449720, 6480981068601479193, 10538285296894168987, 12329834152419229976]
     ([7017280570803617792, 0, 0, 0, 0, 0, 0, 0, 0, 0, 0, 0, 0, 0, 0, 24],
      (7640891576956012808, 13503953896175478587, 4354685564936845355, 11912009170470909681,
      5840696475078001361, 11170449401992604703, 2270897969802886507, 6620516959819538809)) =
     ([0, 0, 0, 0, 0, 0, 0, 24, 7017280570803617792, 844424930132160, 762966109232037891,
      13195750147587, 6097581589540473238, 54043414571793408, 1483655128544091580,
      7126213039481127152],
      (9264979300070018979, 14161387662446692203, 12634632160465029581, 13150674985332787296,
      9725086217580637194, 6515714836861337612, 10877884190705857978, 8384236076355474146))"
  by (simp add: sha_round_defs)

lemma sha_abc_rounds_1:
  "rounds
     [15566598209576043074, 1334009975649890238, 2608012711638119052, 6128411473006802146,
     8268148722764581231, 9286055187155687089, 11230858885718282805, 13951009754708518548]
     ([0, 0, 0, 0, 0, 0, 0, 24, 7017280570803617792, 844424930132160, 762966109232037891,
      13195750147587, 6097581589540473238, 54043414571793408, 1483655128544091580,
      7126213039481127152],
      (9264979300070018979, 14161387662446692203, 12634632160465029581, 13150674985332787296,
      9725086217580637194, 6515714836861337612, 10877884190705857978, 8384236076355474146)) =
     ([7017280570803617792, 844424930132160, 762966109232037891, 13195750147587,
      6097581589540473238, 54043414571793408, 1483655128544091580, 7126213039481127152,
      8602118586805487511, 17389888485336023043, 14567336803169050610, 6777467420161596722,
      16310457152051956578, 11476377395010010066, 12906063273572982575, 1051720670150476534],
      (783763253101075573, 18056759314602819624, 4910214631565110432, 6791746286981245972,
      12068375980370346337, 9749165504138747695, 9658760632651640673, 14840416245504788953))"
  by (simp add: sha_round_defs)

lemma sha_abc_rounds_2:
  "rounds
     [16472876342353939154, 17275323862435702243, 1135362057144423861, 2597628984639134821,
     3308224258029322869, 5365058923640841347, 6679025012923562964, 8573033837759648693]
     ([7017280570803617792, 844424930132160, 762966109232037891, 13195750147587,
      6097581589540473238, 54043414571793408, 1483655128544091580, 7126213039481127152,
      8602118586805487511, 17389888485336023043, 14567336803169050610, 6777467420161596722,
      16310457152051956578, 11476377395010010066, 12906063273572982575, 1051720670150476534],
      (783763253101075573, 18056759314602819624, 4910214631565110432, 6791746286981245972,
      12068375980370346337, 9749165504138747695, 9658760632651640673, 14840416245504788953)) =
     ([8602118586805487511, 17389888485336023043, 14567336803169050610, 6777467420161596722,
      16310457152051956578, 11476377395010010066, 12906063273572982575, 1051720670150476534,
      11866753008450386212, 12477396688234164614, 4356201549416458046, 7840148015528850751,
      14121359558264892382, 6614793513367853908, 4522218185451149906, 2892552721718560235],
      (5721954948261172356, 4478342017695390328, 15723427937955163599, 10215763080027912277,
      14294431782093017651, 775376826807972294, 10245969569294878547, 5456645779651674076))"
  by (simp add: sha_round_defs)

lemma sha_abc_rounds_3:
  "rounds
     [10970295158949994411, 12119686244451234320, 12683024718118986047, 13788192230050041572,
     14330467153632333762, 15395433587784984357, 489312712824947311, 1452737877330783856]
     ([8602118586805487511, 17389888485336023043, 14567336803169050610, 6777467420161596722,
      16310457152051956578, 11476377395010010066, 12906063273572982575, 1051720670150476534,
      11866753008450386212, 12477396688234164614, 4356201549416458046, 7840148015528850751,
      14121359558264892382, 6614793513367853908, 4522218185451149906, 2892552721718560235],
      (5721954948261172356, 4478342017695390328, 15723427937955163599, 10215763080027912277,
      14294431782093017651, 775376826807972294, 10245969569294878547, 5456645779651674076)) =
     ([11866753008450386212, 12477396688234164614, 4356201549416458046, 7840148015528850751,
      14121359558264892382, 6614793513367853908, 4522218185451149906, 2892552721718560235,
      352189473509599370, 9030584440117125351, 12607724378241962598, 829913954127880271,
      12787094207806812211, 6729427763312036062, 5477573448673053883, 16621003149437336899],
      (18396429455477614390, 5498820066291512230, 8412514064609660003, 16583178556168196874,
      4382997362745284142, 8349715323546435235, 17343013611567050885, 1138840708014282116))"
  by (simp add: sha_round_defs)

lemma sha_abc_rounds_4:
  "rounds
     [2861767655752347644, 3322285676063803686, 5560940570517711597, 5996557281743188959,
     7280758554555802590, 8532644243296465576, 9350256976987008742, 10552545826968843579]
     ([11866753008450386212, 12477396688234164614, 4356201549416458046, 7840148015528850751,
      14121359558264892382, 6614793513367853908, 4522218185451149906, 2892552721718560235,
      352189473509599370, 9030584440117125351, 12607724378241962598, 829913954127880271,
      12787094207806812211, 6729427763312036062, 5477573448673053883, 16621003149437336899],
      (18396429455477614390, 5498820066291512230, 8412514064609660003, 16583178556168196874,
      4382997362745284142, 8349715323546435235, 17343013611567050885, 1138840708014282116)) =
     ([352189473509599370, 9030584440117125351, 12607724378241962598, 829913954127880271,
      12787094207806812211, 6729427763312036062, 5477573448673053883, 16621003149437336899,
      16999664878006829468, 3899695832832618899, 3357496273253151093, 3682082552034448227,
      11294004811417749973, 2836744397419860151, 4287662693712260952, 938603131418550565],
      (10232707380485149221, 12951091674955083237, 12306716839941479, 9862748703077922068,
      896509104009926267, 13012472458591840222, 7398798058767285181, 10358226461617243765))"
  by (simp add: sha_round_defs)

lemma sha_abc_rounds_5:
  "rounds
     [11727347734174303076, 12113106623233404929, 14000437183269869457, 14369950271660146224,
     15101387698204529176, 15463397548674623760, 17586052441742319658, 1182934255886127544]
     ([352189473509599370, 9030584440117125351, 12607724378241962598, 829913954127880271,
      12787094207806812211, 6729427763312036062, 5477573448673053883, 16621003149437336899,
      16999664878006829468, 3899695832832618899, 3357496273253151093, 3682082552034448227,
      11294004811417749973, 2836744397419860151, 4287662693712260952, 938603131418550565],
      (10232707380485149221, 12951091674955083237, 12306716839941479, 9862748703077922068,
      896509104009926267, 13012472458591840222, 7398798058767285181, 10358226461617243765)) =
     ([16999664878006829468, 3899695832832618899, 3357496273253151093, 3682082552034448227,
      11294004811417749973, 2836744397419860151, 4287662693712260952, 938603131418550565,
      8445351822503640832, 13301424169519149285, 2637789678536900255, 5398300769020374814,
      3226112756715261327, 12850822427266563721, 13957599002836691690, 14720324025197921979],
      (7739994630535708332, 17734725798035598695, 153046364994624198, 14158364349133529652,
      3829822426967623853, 14320379687691201178, 16815361663307703513, 9623492198945820956))"
  by (simp add: sha_round_defs)

lemma sha_abc_rounds_6:
  "rounds
     [1847814050463011016, 2177327727835720531, 2830643537854262169, 3796741975233480872,
     4115178125766777443, 5681478168544905931, 6601373596472566643, 7507060721942968483]
     ([16999664878006829468, 3899695832832618899, 3357496273253151093, 3682082552034448227,
      11294004811417749973, 2836744397419860151, 4287662693712260952, 938603131418550565,
      8445351822503640832, 13301424169519149285, 2637789678536900255, 5398300769020374814,
      3226112756715261327, 12850822427266563721, 13957599002836691690, 14720324025197921979],
      (7739994630535708332, 17734725798035598695, 153046364994624198, 14158364349133529652,
      3829822426967623853, 14320379687691201178, 16815361663307703513, 9623492198945820956)) =
     ([8445351822503640832, 13301424169519149285, 2637789678536900255, 5398300769020374814,
      3226112756715261327, 12850822427266563721, 13957599002836691690, 14720324025197921979,
      5807888345885282540, 6820734040768121841, 17000633838971044521, 12690899187530245291,
      8675115807306831190, 14216296850786374956, 12954869667114756766, 13513824624013906744],
      (7184473838590656894, 17748832896332585549, 15438172411855308458, 278961163176436227,
      14318312290346190089, 11299446916609150854, 11995371684218654210, 5787007753261273082))"
  by (simp add: sha_round_defs)

lemma sha_abc_rounds_7:
  "rounds
     [8399075790359081724, 8693463985226723168, 9568029438360202098, 10144078919501101548,
     10430055236837252648, 11840083180663258601, 13761210420658862357, 14299343276471374635]
     ([8445351822503640832, 13301424169519149285, 2637789678536900255, 5398300769020374814,
      3226112756715261327, 12850822427266563721, 13957599002836691690, 14720324025197921979,
      5807888345885282540, 6820734040768121841, 17000633838971044521, 12690899187530245291,
      8675115807306831190, 14216296850786374956, 12954869667114756766, 13513824624013906744],
      (7184473838590656894, 17748832896332585549, 15438172411855308458, 278961163176436227,
      14318312290346190089, 11299446916609150854, 11995371684218654210, 5787007753261273082)) =
     ([5807888345885282540, 6820734040768121841, 17000633838971044521, 12690899187530245291,
      8675115807306831190, 14216296850786374956, 12954869667114756766, 13513824624013906744,
      17743411111893162616, 13727910554596711163, 5324059115621695157, 9378356217484295577,
      18299600774795048491, 5065130554155974958, 16449879781680111900, 10569647959714887634],
      (12341244388490841477, 12114099962780444227, 14973785467481547446, 4059959686365434810,
      14810121346132393043, 9513159758854096378, 697747594908290533, 12010905165818265169))"
  by (simp add: sha_round_defs)

lemma sha_abc_rounds_8:
  "rounds
     [14566680578165727644, 15097957966210449927, 16922976911328602910, 17689382322260857208,
     500013540394364858, 748580250866718886, 1242879168328830382, 1977374033974150939]
     ([5807888345885282540, 6820734040768121841, 17000633838971044521, 12690899187530245291,
      8675115807306831190, 14216296850786374956, 12954869667114756766, 13513824624013906744,
      17743411111893162616, 13727910554596711163, 5324059115621695157, 9378356217484295577,
      18299600774795048491, 5065130554155974958, 16449879781680111900, 10569647959714887634],
      (12341244388490841477, 12114099962780444227, 14973785467481547446, 4059959686365434810,
      14810121346132393043, 9513159758854096378, 697747594908290533, 12010905165818265169)) =
     ([17743411111893162616, 13727910554596711163, 5324059115621695157, 9378356217484295577,
      18299600774795048491, 5065130554155974958, 16449879781680111900, 10569647959714887634,
      2005261356116043337, 1161255804184482421, 5979435596161617004, 8336525411669007747,
      16553460315736210159, 9779898375975035028, 16971914281665290084, 17089154783745186334],
      (17392504170187076981, 8526094171459613084, 18116480355077104711, 1736201247801186120,
      10699494962953023727, 12679370825376170234, 16388912088435462445, 782070226320908608))"
  by (simp add: sha_round_defs)

lemma sha_abc_rounds_9:
  "rounds
     [2944078676154940804, 3659926193048069267, 4368137639120453308, 4836135668995329356,
     5532061633213252278, 6448918945643986474, 6902733635092675308, 7801388544844847127]
     ([17743411111893162616, 13727910554596711163, 5324059115621695157, 9378356217484295577,
      18299600774795048491, 5065130554155974958, 16449879781680111900, 10569647959714887634,
      2005261356116043337, 1161255804184482421, 5979435596161617004, 8336525411669007747,
      16553460315736210159, 9779898375975035028, 16971914281665290084, 17089154783745186334],
      (17392504170187076981, 8526094171459613084, 18116480355077104711, 1736201247801186120,
      10699494962953023727, 12679370825376170234, 16388912088435462445, 782070226320908608)) =
     ([2005261356116043337, 1161255804184482421, 5979435596161617004, 8336525411669007747,
      16553460315736210159, 9779898375975035028, 16971914281665290084, 17089154783745186334,
      10366576443252065210, 2043328674003866118, 8920858041386021639, 8487066113909396394,
      7891401527504959866, 7979768038392673478, 14905076182092623766, 4188199310032592967],
      (8333153794429071794, 1214217921339169270, 15454109661322839671, 7300046562812009641,
      15025211954810142423, 11219825219206152094, 2722824510817118883, 14896214553809290022))"
  by (simp add: sha_round_defs)

lemma sha_abc_rounds:
  "rounds K512
     ([7017280570803617792, 0, 0, 0, 0, 0, 0, 0, 0, 0, 0, 0, 0, 0, 0, 24],
      H512) =
     ([2005261356116043337, 1161255804184482421, 5979435596161617004, 8336525411669007747,
      16553460315736210159, 9779898375975035028, 16971914281665290084, 17089154783745186334,
      10366576443252065210, 2043328674003866118, 8920858041386021639, 8487066113909396394,
      7891401527504959866, 7979768038392673478, 14905076182092623766, 4188199310032592967],
      (8333153794429071794, 1214217921339169270, 15454109661322839671, 7300046562812009641,
      15025211954810142423, 11219825219206152094, 2722824510817118883, 14896214553809290022))"
  by (simp only: K512_chunks rounds_append H512_def sha_abc_rounds_0 sha_abc_rounds_1 sha_abc_rounds_2 sha_abc_rounds_3 sha_abc_rounds_4 sha_abc_rounds_5 sha_abc_rounds_6 sha_abc_rounds_7 sha_abc_rounds_8 sha_abc_rounds_9)

lemma sha_abc_int:
  "sha512_int
     [97, 98, 99] =
     [221, 175, 53, 161, 147, 97, 122, 186, 204, 65, 115, 73, 174, 32, 65, 49, 18, 230, 250,
     78, 137, 169, 126, 162, 10, 158, 238, 230, 75, 85, 211, 154, 33, 146, 153, 42, 39, 79,
     193, 168, 54, 186, 60, 35, 163, 254, 235, 189, 69, 77, 68, 35, 100, 60, 232, 14, 42, 154,
     201, 79, 165, 76, 164, 159]"
  by (simp add: sha512_int_def sha_abc_pad sha_blocks_single compress_def sha_abc_words sha_abc_rounds add64_def
      be_bytes_numeral del: sha_blocks.simps words_of.simps rounds.simps)
     (simp add: H512_def add64_def be_bytes_numeral)

lemma sha_abc_digest:
  "sha512_ref
     [97, 98, 99] =
     [221, 175, 53, 161, 147, 97, 122, 186, 204, 65, 115, 73, 174, 32, 65, 49, 18, 230, 250,
     78, 137, 169, 126, 162, 10, 158, 238, 230, 75, 85, 211, 154, 33, 146, 153, 42, 39, 79,
     193, 168, 54, 186, 60, 35, 163, 254, 235, 189, 69, 77, 68, 35, 100, 60, 232, 14, 42, 154,
     201, 79, 165, 76, 164, 159]"
  by (simp add: sha512_ref_def sha_abc_int)

subsection \<open>Bech32 of the address seed\<close>

lemma bech32_alphabet_units:
  "bech32_alphabet =
     [113, 112, 122, 114, 121, 57, 120, 56, 103, 102, 50, 116, 118, 100, 119, 48, 115, 51, 106,
     110, 53, 52, 107, 104, 99, 101, 54, 109, 117, 97, 55, 108]"
  by (simp add: bech32_alphabet_def lit_def)

lemma address_seed_units:
  "address_seed =
     [99, 111, 115, 109, 111, 115, 49, 118, 113, 112, 106, 108, 106, 119, 115, 121, 110, 115,
     110, 53, 56, 100, 117, 103, 122, 48, 119, 56, 117, 116, 55, 107, 117, 110, 55, 116, 56,
     108, 115, 50, 113, 107, 109, 115, 113]"
  by (simp add: address_seed_def lit_def)

lemma lit_cosmos: "lit ''cosmos'' = [99, 111, 115, 109, 111, 115]"
  by (simp add: lit_def)

lemma prefixChk_cosmos: "prefixChk [99, 111, 115, 109, 111, 115] = Inr 1060121407"
  by (simp add: prefixChk_def polymodStep_def)

lemma bech32_values_seed:
  "bech32_values
     [118, 113, 112, 106, 108, 106, 119, 115, 121, 110, 115, 110, 53, 56, 100, 117, 103, 122,
     48, 119, 56, 117, 116, 55, 107, 117, 110, 55, 116, 56, 108, 115, 50, 113, 107, 109, 115,
     113] =
   Inr
     [12, 0, Suc 0, 18, 31, 18, 14, 16, 4, 19, 16, 19, 20, 7, 13, 28, 8, 2, 15, 14, 7, 28, 11,
     30, 22, 28, 19, 30, 11, 7, 31, 16, 10, 0, 22, 27, 16, 0]"
  by (simp add: bech32_alphabet_units)

lemma words_checksum_seed:
  "words_checksum
     [12, 0, Suc 0, 18, 31, 18, 14, 16, 4, 19, 16, 19, 20, 7, 13, 28, 8, 2, 15, 14, 7, 28, 11,
     30, 22, 28, 19, 30, 11, 7, 31, 16, 10, 0, 22, 27, 16, 0]
     1060121407 = Suc 0"
  by (simp add: polymodStep_def)

lemma bech32_decode_split_seed:
  "bech32_decode_split
     [99, 111, 115, 109, 111, 115, 49, 118, 113, 112, 106, 108, 106, 119, 115, 121, 110, 115,
     110, 53, 56, 100, 117, 103, 122, 48, 119, 56, 117, 116, 55, 107, 117, 110, 55, 116, 56,
     108, 115, 50, 113, 107, 109, 115, 113]
     (Suc (Suc (Suc (Suc (Suc (Suc 0)))))) =
   Inr ([99, 111, 115, 109, 111, 115],
     [12, 0, Suc 0, 18, 31, 18, 14, 16, 4, 19, 16, 19, 20, 7, 13, 28, 8, 2, 15, 14, 7, 28, 11,
     30, 22, 28, 19, 30, 11, 7, 31, 16])"
  by (simp add: bech32_decode_split_def prefixChk_cosmos bech32_values_seed words_checksum_seed
      del: bech32_values.simps words_checksum.simps)

lemma bech32_decode_seed:
  "bech32_decode address_seed =
   Inr (lit ''cosmos'',
     [12, 0, Suc 0, 18, 31, 18, 14, 16, 4, 19, 16, 19, 20, 7, 13, 28, 8, 2, 15, 14, 7, 28, 11,
     30, 22, 28, 19, 30, 11, 7, 31, 16])"
  by (simp add: address_seed_units lit_cosmos bech32_decode_def ascii_lower_def ascii_upper_def
      bech32_decode_split_seed)

lemma fromWords_seed:
  "convert
     [12, 0, Suc 0, 18, 31, 18, 14, 16, 4, 19, 16, 19, 20, 7, 13, 28, 8, 2, 15, 14, 7, 28, 11,
     30, 22, 28, 19, 30, 11, 7, 31, 16] 5 8 False =
   Inr [96, 3, 47, 201, 208, 36, 225, 58, 29, 188, 64, 158, 227, 241, 126, 183, 39, 229, 159, 240]"
  by (simp add: convert_def)

lemma Bech32_decode_seed: "Bech32_decode_ref address_seed = Inr (lit ''cosmos'', seed_payload)"
  by (simp add: Bech32_decode_ref_def bech32_decode_seed fromWords_seed seed_payload_def
      del: convert_run.simps)

lemma toWords_seed_payload:
  "convert (map unat seed_payload) 8 5 True =
   Inr
     [12, 0, Suc 0, 18, 31, 18, 14, 16, 4, 19, 16, 19, 20, 7, 13, 28, 8, 2, 15, 14, 7, 28, 11,
     30, 22, 28, 19, 30, 11, 7, 31, 16]"
  by (simp add: convert_def seed_payload_def)

lemma toWords_hashed_payload:
  "convert (map unat (take 20 (sha512_ref seed_payload))) 8 5 True =
   Inr
     [7, 15, 8, Suc 0, 8, 22, 9, 18, 2, 4, 4, 27, 23, 4, 17, 6, 30, 24, 14, 26, 3, 2, 30, 19,
     3, 15, 6, 13, 8, 7, 30, 19]"
  by (simp add: sha_payload_seed_payload) (simp add: convert_def)

lemma bech32_encode_seed:
  "bech32_encode (lit ''cosmos'')
     [12, 0, Suc 0, 18, 31, 18, 14, 16, 4, 19, 16, 19, 20, 7, 13, 28, 8, 2, 15, 14, 7, 28, 11,
     30, 22, 28, 19, 30, 11, 7, 31, 16] =
   Inr address_seed"
  by (simp add: address_seed_units lit_cosmos bech32_encode_def ascii_lower_def prefixChk_cosmos
      polymodStep_def bech32_checksum_def checksum_words_def bech32_char_def bech32_alphabet_units
      lit_def)

lemma bech32_encode_hashed:
  "bech32_encode (lit ''cosmos'')
     [7, 15, 8, Suc 0, 8, 22, 9, 18, 2, 4, 4, 27, 23, 4, 17, 6, 30, 24, 14, 26, 3, 2, 30, 19,
     3, 15, 6, 13, 8, 7, 30, 19] =
   Inr (lit ''cosmos180gpgkfjzyymhy3x7cw6rz7nr0xdg87ns576n2'')"
  by (simp add: lit_cosmos bech32_encode_def ascii_lower_def prefixChk_cosmos
      polymodStep_def bech32_checksum_def checksum_words_def bech32_char_def bech32_alphabet_units
      lit_def)

subsection \<open>Base64 of the first generated key\<close>

lemma toBase64_pubkey_1:
  "toBase64_ref
     [2, 247, 127, 87, 200, 97, 54, 59, 115, 23, 39, 72, 0, 0, 247, 148, 184, 7, 86, 141, 19,
     60, 169, 35, 63, 245, 190, 138, 18, 86, 75, 212, 154] =
   lit ''Avd/V8hhNjtzFydIAAD3lLgHVo0TPKkjP/W+ihJWS9Sa''"
  by (simp add: toBase64_ref_def base64_alphabet_units base64_char_def lit_def)

lemma toBase64_pubkey_1_spec:
  "toBase64_ref
     [3, 247, 127, 87, 200, 97, 54, 59, 115, 23, 39, 72, 0, 0, 247, 148, 184, 7, 86, 141, 19,
     60, 169, 35, 63, 245, 190, 138, 18, 86, 75, 212, 154] =
   lit ''A/d/V8hhNjtzFydIAAD3lLgHVo0TPKkjP/W+ihJWS9Sa''"
  by (simp add: toBase64_ref_def base64_alphabet_units base64_char_def lit_def)

lemma length_seed_pubkey: "length seed_pubkey = 33"
  by (simp add: seed_pubkey_def)

lemma length_seed_payload: "length seed_payload = 20"
  by (simp add: seed_payload_def)

subsection \<open>examplePubkey\<close>

lemma pubkey_body_1:
  "pubkey_body cosmjs (Val 1) seed_pubkey =
     [2, 247, 127, 87, 200, 97, 54, 59, 115, 23, 39, 72, 0, 0, 247, 148, 184, 7, 86, 141, 19,
     60, 169, 35, 63, 245, 190, 138, 18, 86, 75, 212, 154]"
  by (simp add: pubkey_body_def hash_and_trim_take cosmjs_simps length_sha512_ref
      length_seed_pubkey sha_pubkey_seed_pubkey rem_js_def)

lemma examplePubkey_1:
  "examplePubkey cosmjs (Val 1) = Inr (lit ''Avd/V8hhNjtzFydIAAD3lLgHVo0TPKkjP/W+ihJWS9Sa'')"
  using for_loop_from_0 [of "pubkey_body cosmjs (Val 1)" 1 seed_pubkey]
  by (simp add: examplePubkey_def cosmjs_simps fromBase64_pubkey_seed pubkey_body_1
      toBase64_pubkey_1)

lemma examplePubkey_spec_1:
  "examplePubkey_spec cosmjs 1 = Inr (lit ''A/d/V8hhNjtzFydIAAD3lLgHVo0TPKkjP/W+ihJWS9Sa'')"
  by (simp add: examplePubkey_spec_def pubkey_body_spec_def cosmjs_simps fromBase64_pubkey_seed
      sha_pubkey_seed_pubkey toBase64_pubkey_1_spec)

theorem examplePubkey_iterates_witness:
  "examplePubkey cosmjs (Val 1) = Inr (lit ''Avd/V8hhNjtzFydIAAD3lLgHVo0TPKkjP/W+ihJWS9Sa'')"
proof -
  have "fromBase64 cosmjs pubkey_seed = Inr seed_pubkey"
    by (simp add: cosmjs_simps fromBase64_pubkey_seed)
  moreover have "length seed_pubkey = 33"
    by (simp add: seed_pubkey_def)
  moreover have "\<forall>m. length (sha512 cosmjs m) = 64"
    by (simp add: cosmjs_simps length_sha512_ref)
  ultimately have "examplePubkey cosmjs (Val 1) =
    Inr (toBase64 cosmjs
      (((\<lambda>data. (take 33 (sha512 cosmjs data))[0 := (if odd (1::int) then 0x02 else 0x03)]) ^^ nat 1)
        seed_pubkey))"
    using examplePubkey_iterates [of 1 cosmjs seed_pubkey] by simp
  then show ?thesis
    by (simp add: cosmjs_simps sha_pubkey_seed_pubkey toBase64_pubkey_1)
qed

text \<open>
  Against C1 as the spec states it: for the odd index 1 the module sets byte 0 to 0x02,
  where the spec's rule sets it to 0x03, and the two keys differ.
\<close>

theorem examplePubkey_parity_counterexample:
  "examplePubkey cosmjs (Val 1) \<noteq> examplePubkey_spec cosmjs 1"
  by (simp add: examplePubkey_1 examplePubkey_spec_1 lit_def)

subsection \<open>checkAddress\<close>

theorem checkAddress_spec_witness:
  "checkAddress cosmjs env_cosmos (Val address_seed) = Inr Null \<and>
   checkAddress cosmjs env_cosmos (Val []) = Inr (Val (lit ''Empty'')) \<and>
   checkAddress cosmjs (env_cosmos\<lparr>NEXT_PUBLIC_ADDRESS_PREFIX := Val (lit ''osmo'')\<rparr>)
     (Val address_seed) =
     Inr (Val (lit ''Expected address prefix '' @ [0x27] @ lit ''osmo'' @ [0x27]
               @ lit '' but got '' @ [0x27] @ lit ''cosmos'' @ [0x27]))"
proof -
  have decode: "Bech32_decode cosmjs address_seed = Inr (lit ''cosmos'', seed_payload)"
    by (simp add: cosmjs_simps Bech32_decode_seed)
  have nonempty: "address_seed \<noteq> []"
    by (simp add: address_seed_units)
  have len: "length seed_payload = 20"
    by (simp add: seed_payload_def)
  have "checkAddress cosmjs env_cosmos (Val address_seed) = Inr Null"
    using checkAddress_spec [of cosmjs env_cosmos "Val address_seed", THEN conjunct2, THEN conjunct1]
      decode nonempty len
    by (simp add: env_cosmos_simps)
  moreover have "checkAddress cosmjs env_cosmos (Val []) = Inr (Val (lit ''Empty''))"
    using checkAddress_spec [of cosmjs env_cosmos "Val []", THEN conjunct2, THEN conjunct2,
        THEN conjunct1]
    by simp
  moreover have "lit ''osmo'' \<noteq> lit ''cosmos''"
    by (simp add: lit_def)
  then have "checkAddress cosmjs (env_cosmos\<lparr>NEXT_PUBLIC_ADDRESS_PREFIX := Val (lit ''osmo'')\<rparr>)
     (Val address_seed) =
     Inr (Val (lit ''Expected address prefix '' @ [0x27] @ lit ''osmo'' @ [0x27]
               @ lit '' but got '' @ [0x27] @ lit ''cosmos'' @ [0x27]))"
    using checkAddress_spec [of cosmjs "env_cosmos\<lparr>NEXT_PUBLIC_ADDRESS_PREFIX := Val (lit ''osmo'')\<rparr>"
        "Val address_seed", THEN conjunct2, THEN conjunct2, THEN conjunct2, THEN conjunct2,
        THEN conjunct1]
      decode nonempty
    by simp
  ultimately show ?thesis by blast
qed

subsection \<open>exampleAddress\<close>

lemma lit_1: "lit ''1'' = [0x31]"
  by (simp add: lit_def)

lemma bech32_encode_shape:
  assumes "bech32_encode p (w # ws) = Inr s"
  shows "\<exists>rest. s = map ascii_lower p @ 0x31 # bech32_char w # rest"
  using assms
  by (auto simp: bech32_encode_def lit_1 split: if_splits sum.splits)

lemma bech32_char_12_7: "bech32_char 12 \<noteq> bech32_char 7"
  by (simp add: bech32_char_def bech32_alphabet_units)

lemma Bech32_encode_hashed_differs:
  assumes "Bech32_encode_ref pre seed_payload = Inr s"
  shows "Bech32_encode_ref pre (take 20 (sha512_ref seed_payload)) \<noteq> Inr s"
proof
  assume eq: "Bech32_encode_ref pre (take 20 (sha512_ref seed_payload)) = Inr s"
  from assms obtain p where pre: "pre = Val p"
    by (cases pre) simp_all
  from assms pre obtain r0 where "s = map ascii_lower p @ 0x31 # bech32_char 12 # r0"
    using bech32_encode_shape by (fastforce simp: toWords_seed_payload)
  moreover from eq pre obtain r1 where "s = map ascii_lower p @ 0x31 # bech32_char 7 # r1"
    using bech32_encode_shape by (fastforce simp: toWords_hashed_payload)
  ultimately show False
    using bech32_char_12_7 by simp
qed

text \<open>
  C6.  exampleAddress is a function of the index and of the configured address prefix:
  equal indexes under equal prefixes give equal results.  The seed decodes to the prefix
  "cosmos" and a payload of 20 bytes, and exampleAddress(0) is the bech32 encoding of
  that payload under the configured prefix.  Where exampleAddress(0) returns a string,
  exampleAddress(1) does not return the same string.
\<close>

theorem exampleAddress_spec:
  "(i = j \<and> NEXT_PUBLIC_ADDRESS_PREFIX E = NEXT_PUBLIC_ADDRESS_PREFIX E' \<longrightarrow>
      exampleAddress X E i = exampleAddress X E' j) \<and>
   Bech32_decode cosmjs address_seed = Inr (lit ''cosmos'', seed_payload) \<and>
   length seed_payload = 20 \<and>
   exampleAddress cosmjs E (Val 0) =
     Bech32_encode cosmjs (NEXT_PUBLIC_ADDRESS_PREFIX E) seed_payload \<and>
   (\<forall>s. exampleAddress cosmjs E (Val 0) = Inr s \<longrightarrow> exampleAddress cosmjs E (Val 1) \<noteq> Inr s)"
proof -
  have decode: "Bech32_decode cosmjs address_seed = Inr (lit ''cosmos'', seed_payload)"
    by (simp add: cosmjs_simps Bech32_decode_seed)
  have trim: "hash_and_trim cosmjs seed_payload = take 20 (sha512_ref seed_payload)"
    by (simp add: hash_and_trim_take cosmjs_simps length_sha512_ref length_seed_payload)
  have zero: "exampleAddress cosmjs E (Val 0) =
      Bech32_encode_ref (NEXT_PUBLIC_ADDRESS_PREFIX E) seed_payload"
    by (simp add: exampleAddress_0 decode) (simp add: cosmjs_simps)
  have one: "exampleAddress cosmjs E (Val 1) =
      Bech32_encode_ref (NEXT_PUBLIC_ADDRESS_PREFIX E) (take 20 (sha512_ref seed_payload))"
    by (simp add: exampleAddress_1 decode trim) (simp add: cosmjs_simps)
  have "\<forall>s. exampleAddress cosmjs E (Val 0) = Inr s \<longrightarrow> exampleAddress cosmjs E (Val 1) \<noteq> Inr s"
    using Bech32_encode_hashed_differs by (simp add: zero one)
  moreover have "length seed_payload = 20"
    by (simp add: seed_payload_def)
  moreover have "i = j \<and> NEXT_PUBLIC_ADDRESS_PREFIX E = NEXT_PUBLIC_ADDRESS_PREFIX E' \<longrightarrow>
      exampleAddress X E i = exampleAddress X E' j"
    using exampleAddress_env by blast
  ultimately show ?thesis
    using decode zero by (simp add: cosmjs_simps)
qed

theorem exampleAddress_spec_witness:
  "exampleAddress cosmjs env_cosmos (Val 0) = Inr (lit ''cosmos1vqpjljwsynsn58dugz0w8ut7kun7t8ls2qkmsq'') \<and>
   exampleAddress cosmjs env_cosmos (Val 1) \<noteq> Inr (lit ''cosmos1vqpjljwsynsn58dugz0w8ut7kun7t8ls2qkmsq'')"
proof -
  note spec = exampleAddress_spec [of "Val 0" "Val 0" env_cosmos env_cosmos cosmjs]
  from spec have "exampleAddress cosmjs env_cosmos (Val 0) =
      Bech32_encode cosmjs (NEXT_PUBLIC_ADDRESS_PREFIX env_cosmos) seed_payload"
    by blast
  then have zero: "exampleAddress cosmjs env_cosmos (Val 0) = Inr address_seed"
    by (simp add: env_cosmos_simps cosmjs_simps toWords_seed_payload bech32_encode_seed)
  from spec have "\<forall>s. exampleAddress cosmjs env_cosmos (Val 0) = Inr s \<longrightarrow>
      exampleAddress cosmjs env_cosmos (Val 1) \<noteq> Inr s"
    by blast
  with zero have "exampleAddress cosmjs env_cosmos (Val 1) \<noteq> Inr address_seed"
    by blast
  with zero show ?thesis
    by (simp add: address_seed_def)
qed

lemma exampleAddress_1_cosmos:
  "exampleAddress cosmjs env_cosmos (Val 1) =
     Inr (lit ''cosmos180gpgkfjzyymhy3x7cw6rz7nr0xdg87ns576n2'')"
proof -
  have "Bech32_decode cosmjs address_seed = Inr (lit ''cosmos'', seed_payload)"
    by (simp add: cosmjs_simps Bech32_decode_seed)
  moreover have "hash_and_trim cosmjs seed_payload = take 20 (sha512_ref seed_payload)"
    by (simp add: hash_and_trim_take cosmjs_simps length_sha512_ref length_seed_payload)
  ultimately show ?thesis
    by (simp add: exampleAddress_1 cosmjs_simps env_cosmos_simps toWords_hashed_payload
        bech32_encode_hashed)
qed

subsection \<open>abbreviateLongString\<close>

text \<open>
  C7.  A string shorter than 13 code units is returned unchanged; a string of 13 or more is
  replaced by its first 5 code units, three full stops and its last 5 code units, so
  that the result has exactly 13 code units.
\<close>

theorem abbreviateLongString_spec:
  "(length s < 13 \<longrightarrow> abbreviateLongString s = s) \<and>
   (13 \<le> length s \<longrightarrow>
      abbreviateLongString s = take 5 s @ lit ''...'' @ drop (length s - 5) s \<and>
      length (abbreviateLongString s) = 13)"
proof -
  have first: "slice_js s 0 (Some 5) = take 5 s" if "13 \<le> length s"
    using slice_first [of 5 s] that by simp
  have last: "slice_js s (- 5) None = drop (length s - 5) s" if "13 \<le> length s"
    using slice_last [of 5 s] that by simp
  show ?thesis
    by (auto simp: abbreviateLongString_def first last length_lit)
qed

theorem abbreviateLongString_spec_witness:
  "abbreviateLongString (lit ''cosmos'') = lit ''cosmos'' \<and>
   abbreviateLongString (lit ''cosmos1vqpjljwsynsn58dugz0w8ut7kun7t8ls2qkmsq'') = lit ''cosmo...qkmsq'' \<and>
   length (abbreviateLongString (lit ''cosmos1vqpjljwsynsn58dugz0w8ut7kun7t8ls2qkmsq'')) = 13"
  using abbreviateLongString_spec [of "lit ''cosmos''"]
    abbreviateLongString_spec [of "lit ''cosmos1vqpjljwsynsn58dugz0w8ut7kun7t8ls2qkmsq''"]
  by (simp add: length_lit lit_def)

end
